theory Spec2Isabelle
  imports Complex_Main
begin

section \<open>Data model\<close>

text \<open>
  The controller is a single Go file. Its \<open>int\<close> is 64 bits wide: the embedding keeps
  such values in \<open>int\<close> and writes the wrap-around out at every sum and difference of
  a value that a device or the settings file supplies, and at the counter of the lights
  read. The position and result counters of the loops over the registry count its
  entries and are kept as they are.
  Division is Go's: it truncates towards zero, and a zero divisor is a run-time panic.
\<close>

record Config =
  Lights :: "string \<rightharpoonup> string"
  LastBrightness :: int
  LastTemperature :: int
  LastSelectedLight :: string

record LightState =
  On :: int
  Brightness :: int
  Temperature :: int

text \<open>
  A Go \<open>error\<close> value. \<open>Wrapped msg e\<close> is \<open>fmt.Errorf("msg: %w", e)\<close>, where
  \<open>e\<close> is an \<open>error\<close> variable (\<open>None\<close> when it is \<open>nil\<close>); \<open>ApiStatus c\<close> is
  \<open>fmt.Errorf("API returned status %d", c)\<close> and \<open>NoLightsInResponse\<close> is
  \<open>fmt.Errorf("no lights in response")\<close>. The other three stand for the errors of the
  HTTP client, of the JSON decoder and of \<open>http.NewRequest\<close>.
\<close>

datatype error =
    TransportErr
  | DecodeErr
  | RequestErr
  | NoLightsInResponse
  | ApiStatus int
  | Wrapped string "error option"

text \<open>
  An HTTP reply as the code looks at it: the status code, and the body by what
  \<open>json.NewDecoder(resp.Body).Decode(&lightsResp)\<close> makes of it, either an error or the
  \<open>Lights\<close> slice of a \<open>LightsResponse\<close>.
\<close>

datatype body = Undecodable error | Json "LightState list"

record http_response =
  StatusCode :: int
  Body :: body

text \<open>The inner map of a PUT payload: only the keys that were supplied are present.\<close>

record light_patch =
  patch_on :: "int option"
  patch_brightness :: "int option"
  patch_temperature :: "int option"

text \<open>What a run prints (one constructor per \<open>Printf\<close>/\<open>Println\<close> of the CLI paths modelled).\<close>

datatype report =
    Usage
  | FailedToGetState string
  | FailedToAdjust string
  | FailedToSet string
  | BrightnessIs string int
  | TemperatureIs string int
  | CouldNotReadAnyLights
  | SettingAllLightsTo int
  | MustBeBetween int int
  | InvalidValue
  | LightNotFound string
  | FailedToToggle string error
  | Toggled string
  | FailedToTurnOn string
  | TurnedOn string
  | FailedToTurnOff string
  | TurnedOff string
  | FailedToSetBrightness string
  | FailedToSetTemperature string
  | Offline string
  | Status string bool int int
  | UnknownCommand string

text \<open>
  The effects of a run, oldest first: HTTP requests attempted, sleeps, configuration
  saves, printed lines, and the start of the detached discovery goroutine.
\<close>

datatype event =
    HttpGet string
  | HttpPut string light_patch
  | Sleep nat
  | SaveConfig Config
  | Print report
  | GoDiscoverLights

type_synonym trace = "event list"

text \<open>
  The world outside the process. A request is answered by a function of the moment it is
  issued (the length of the trace so far) and of the request, so devices may change state,
  drop off the network or come back between two calls. For a GET, \<open>Inl\<close> is the \<open>err\<close>
  of \<open>client.Get\<close>. For a PUT, \<open>Inl RequestErr\<close> is the \<open>err\<close> of
  \<open>http.NewRequest\<close> for the device URL and any other \<open>Inl\<close> is the \<open>err\<close> of
  \<open>client.Do\<close>; the event \<open>HttpPut\<close> records the attempt in both cases.
  \<open>sscan_int\<close> is \<open>fmt.Sscanf(s, "%d", &x)\<close>: the scanned number when
  \<open>n == 1 && err == nil\<close>.
\<close>

record env =
  http_get :: "nat \<Rightarrow> string \<Rightarrow> error + http_response"
  http_put :: "nat \<Rightarrow> string \<Rightarrow> light_patch \<Rightarrow> error + http_response"
  sscan_int :: "string \<Rightarrow> int option"

text \<open>How a call ends: it returns, the process exits with a status, or it panics.\<close>

datatype 'a run = Ret 'a | Exit nat | Panic

definition bind_run :: "'a run \<times> trace \<Rightarrow> ('a \<Rightarrow> trace \<Rightarrow> 'b run \<times> trace) \<Rightarrow> 'b run \<times> trace" where
  "bind_run r f =
     (case r of
        (Ret a, tr) \<Rightarrow> f a tr
      | (Exit n, tr) \<Rightarrow> (Exit n, tr)
      | (Panic, tr) \<Rightarrow> (Panic, tr))"

section \<open>Device client\<close>

text \<open>
  Go's \<open>int\<close> on the 64-bit platforms the program is built for: sums and differences
  wrap around in two's complement. \<open>wrap64\<close> brings an integer back into
  \<open>[-2^63, 2^63)\<close>.
\<close>

definition wrap64 :: "int \<Rightarrow> int" where
  "wrap64 x = (x + 2 ^ 63) mod 2 ^ 64 - 2 ^ 63"

text \<open>
  Go's integer division: \<open>None\<close> is the division-by-zero panic. The quotient of two
  64-bit values is a 64-bit value except for \<open>-2^63 / -1\<close>, which no call of the program
  computes: the dividend is \<open>1000000\<close> or the divisor is a positive count.
\<close>

definition go_div :: "int \<Rightarrow> int \<Rightarrow> int option" where
  "go_div a b =
     (if b = 0 then None
      else if (a < 0) = (b < 0) then Some (\<bar>a\<bar> div \<bar>b\<bar>)
      else Some (- (\<bar>a\<bar> div \<bar>b\<bar>)))"

text \<open>\<open>getLightState\<close>: GET, decode, first entry of the list. The status code is not read.\<close>

definition getLightState :: "env \<Rightarrow> string \<Rightarrow> trace \<Rightarrow> (error + LightState) \<times> trace" where
  "getLightState e ip tr =
     (case http_get e (length tr) ip of
        Inl err \<Rightarrow> (Inl err, tr @ [HttpGet ip])
      | Inr resp \<Rightarrow>
          (case Body resp of
             Undecodable err \<Rightarrow> (Inl err, tr @ [HttpGet ip])
           | Json ls \<Rightarrow>
               (case ls of
                  s # _ \<Rightarrow> (Inr s, tr @ [HttpGet ip])
                | [] \<Rightarrow> (Inl NoLightsInResponse, tr @ [HttpGet ip]))))"


text \<open>
  \<open>setLight\<close>: builds the patch from the supplied fields, Kelvin converted by
  \<open>int(1000000 / *temperature)\<close>, and PUTs it. \<open>json.Marshal\<close> of a map of integers has
  no error. Any status other than 200 is an error.
\<close>

definition setLight ::
  "env \<Rightarrow> string \<Rightarrow> int option \<Rightarrow> int option \<Rightarrow> int option \<Rightarrow> trace \<Rightarrow> error option run \<times> trace" where
  "setLight e ip on brightness temperature tr =
     (case (case temperature of
              None \<Rightarrow> Some None
            | Some t \<Rightarrow> map_option Some (go_div 1000000 t)) of
        None \<Rightarrow> (Panic, tr)
      | Some elgatoTemp \<Rightarrow>
          (let light = \<lparr>patch_on = on, patch_brightness = brightness,
                        patch_temperature = elgatoTemp\<rparr>
           in case http_put e (length tr) ip light of
                Inl err \<Rightarrow> (Ret (Some err), tr @ [HttpPut ip light])
              | Inr resp \<Rightarrow>
                  if StatusCode resp \<noteq> 200
                  then (Ret (Some (ApiStatus (StatusCode resp))), tr @ [HttpPut ip light])
                  else (Ret None, tr @ [HttpPut ip light])))"

text \<open>\<open>toggleLight\<close>: read, invert, write; when the read fails, try to turn the light on.\<close>

definition toggleLight :: "env \<Rightarrow> string \<Rightarrow> trace \<Rightarrow> error option run \<times> trace" where
  "toggleLight e ip tr =
     (case getLightState e ip tr of
        (Inl err, tr1) \<Rightarrow> setLight e ip (Some 1) None None tr1
      | (Inr state, tr1) \<Rightarrow>
          setLight e ip (Some (if On state = 0 then 1 else 0)) None None tr1)"

text \<open>One attempt of the fast toggle: its own GET and PUT, every error wrapped.\<close>

definition toggleLightAttempt :: "env \<Rightarrow> string \<Rightarrow> trace \<Rightarrow> error option \<times> trace" where
  "toggleLightAttempt e ip tr =
     (case http_get e (length tr) ip of
        Inl err \<Rightarrow> (Some (Wrapped ''failed to get light state'' (Some err)), tr @ [HttpGet ip])
      | Inr resp \<Rightarrow>
          (case Body resp of
             Undecodable err \<Rightarrow>
               (Some (Wrapped ''failed to decode response'' (Some err)), tr @ [HttpGet ip])
           | Json ls \<Rightarrow>
               (case ls of
                  [] \<Rightarrow> (Some NoLightsInResponse, tr @ [HttpGet ip])
                | s # _ \<Rightarrow>
                    (let newState = (if On s = 0 then 1 else 0);
                         light = \<lparr>patch_on = Some newState, patch_brightness = None,
                                  patch_temperature = None\<rparr>;
                         tr1 = tr @ [HttpGet ip]
                     in case http_put e (length tr1) ip light of
                          Inl RequestErr \<Rightarrow>
                            (Some (Wrapped ''failed to create request'' (Some RequestErr)),
                             tr1 @ [HttpPut ip light])
                        | Inl err \<Rightarrow>
                            (Some (Wrapped ''failed to send toggle request'' (Some err)),
                             tr1 @ [HttpPut ip light])
                        | Inr resp2 \<Rightarrow>
                            if StatusCode resp2 \<noteq> 200
                            then (Some (ApiStatus (StatusCode resp2)), tr1 @ [HttpPut ip light])
                            else (None, tr1 @ [HttpPut ip light])))))"

text \<open>
  \<open>toggleLightFast\<close>: the loop \<open>for attempt := 1; attempt <= 3; attempt++\<close>, with
  \<open>lastErr\<close> carried along and \<open>time.Sleep(100 * time.Millisecond)\<close> after a failed
  attempt that is not the last.
\<close>

function toggleLightFast_loop ::
  "env \<Rightarrow> string \<Rightarrow> nat \<Rightarrow> error option \<Rightarrow> trace \<Rightarrow> error option \<times> trace" where
  "toggleLightFast_loop e ip attempt lastErr tr =
     (if attempt \<le> 3 then
        (case toggleLightAttempt e ip tr of
           (None, tr1) \<Rightarrow> (None, tr1)
         | (Some err, tr1) \<Rightarrow>
             toggleLightFast_loop e ip (attempt + 1) (Some err)
               (if attempt < 3 then tr1 @ [Sleep 100] else tr1))
      else (Some (Wrapped ''failed after 3 attempts'' lastErr), tr))"
  by pat_completeness auto
termination
  by (relation "measure (\<lambda>(e, ip, attempt, lastErr, tr). 4 - attempt)") auto

definition toggleLightFast :: "env \<Rightarrow> string \<Rightarrow> trace \<Rightarrow> error option \<times> trace" where
  "toggleLightFast e ip tr = toggleLightFast_loop e ip 1 None tr"

section \<open>Configuration\<close>

text \<open>
  The configuration file as \<open>loadConfig\<close> meets it: \<open>os.ReadFile\<close> fails, or
  \<open>json.Unmarshal\<close> fails, or the document is decoded into a \<open>Config\<close> (a field that the
  document lacks keeps Go's zero value).
\<close>

datatype config_file = ReadError | ParseError | Document Config

definition loadConfig :: "config_file \<Rightarrow> Config" where
  "loadConfig f =
     (case f of
        ReadError \<Rightarrow>
          \<lparr>Lights = Map.empty, LastBrightness = 50, LastTemperature = 4000,
           LastSelectedLight = ''''\<rparr>
      | ParseError \<Rightarrow>
          \<lparr>Lights = Map.empty, LastBrightness = 50, LastTemperature = 4000,
           LastSelectedLight = ''''\<rparr>
      | Document config \<Rightarrow> config)"

text \<open>\<open>saveConfig\<close> writes the document; the errors of the file system are dropped.\<close>

definition saveConfig :: "Config \<Rightarrow> trace \<Rightarrow> trace" where
  "saveConfig config tr = tr @ [SaveConfig config]"

text \<open>
  Go leaves the order of \<open>for name, ip := range config.Lights\<close> open and varies it from
  one loop to the next. A loop is therefore given the order \<open>ks\<close> it visits the keys in;
  \<open>range_order m ks\<close> says that \<open>ks\<close> is such an order for the map \<open>m\<close>, and
  \<open>range_entries m ks\<close> are the pairs the loop sees.
\<close>

definition range_order :: "(string \<rightharpoonup> string) \<Rightarrow> string list \<Rightarrow> bool" where
  "range_order m ks \<longleftrightarrow> distinct ks \<and> set ks = dom m"

definition range_entries :: "(string \<rightharpoonup> string) \<Rightarrow> string list \<Rightarrow> (string \<times> string) list" where
  "range_entries m ks = List.map_filter (\<lambda>k. map_option (Pair k) (m k)) ks"

section \<open>Interactive session\<close>

datatype lightMode = allLights | light1 | light2

datatype controlFocus =
  focusToggle | focusTurnOff | focusTurnOn | focusBrightness | focusTemperature

text \<open>The \<open>iota\<close> value of a focus constant, for the comparison \<open><= focusTurnOn\<close>.\<close>

fun focus_iota :: "controlFocus \<Rightarrow> nat" where
  "focus_iota focusToggle = 0"
| "focus_iota focusTurnOff = 1"
| "focus_iota focusTurnOn = 2"
| "focus_iota focusBrightness = 3"
| "focus_iota focusTemperature = 4"

text \<open>The status line of the session, one constructor per text the code assigns to it.\<close>

datatype notice =
    NoNotice
  | ControllingAllLights
  | Controlling string
  | DiscoveringLights
  | LightsTurnedOff
  | LightsTurnedOn
  | ErrorSettingBrightness
  | BrightnessSetTo int
  | ErrorSettingTemperature
  | TemperatureSetTo int
  | LightsToggled nat
  | ErrorTogglingLights

record model =
  config :: Config
  lights :: "string \<rightharpoonup> string"
  lightsList :: "string list"
  selectedLightMode :: lightMode
  focusedControl :: controlFocus
  brightnessValue :: int
  temperatureValue :: int
  message :: notice
  quitting :: bool

datatype msg = KeyMsg string | OtherMsg

datatype cmd = NoCmd | Quit

text \<open>
  \<open>initialModel\<close>: \<open>ks\<close> is the order in which the loop that fills \<open>lightsList\<close> visits
  the names.
\<close>

definition initialModel :: "config_file \<Rightarrow> string list \<Rightarrow> model" where
  "initialModel f ks =
     (let config0 = loadConfig f;
          lightsList = map fst (range_entries (Lights config0) ks);
          config1 = (if LastBrightness config0 = 0 then config0\<lparr>LastBrightness := 50\<rparr>
                     else config0);
          config2 = (if LastTemperature config1 = 0 then config1\<lparr>LastTemperature := 4000\<rparr>
                     else config1)
      in \<lparr>config = config2, lights = Lights config2, lightsList = lightsList,
          selectedLightMode = allLights, focusedControl = focusToggle,
          brightnessValue = LastBrightness config2,
          temperatureValue = LastTemperature config2,
          message = NoNotice, quitting = False\<rparr>)"

text \<open>A Go map read \<open>m[k]\<close>: the zero value \<open>""\<close> for a key that is absent.\<close>

definition map_index :: "(string \<rightharpoonup> string) \<Rightarrow> string \<Rightarrow> string" where
  "map_index m k = (case m k of None \<Rightarrow> '''' | Some v \<Rightarrow> v)"

text \<open>\<open>getSelectedLightIPs\<close>; \<open>ks\<close> is the order of its loop over \<open>m.lights\<close>.\<close>

definition getSelectedLightIPs :: "model \<Rightarrow> string list \<Rightarrow> string list" where
  "getSelectedLightIPs m ks =
     (case selectedLightMode m of
        allLights \<Rightarrow> map snd (range_entries (lights m) ks)
      | light1 \<Rightarrow>
          (if length (lightsList m) \<ge> 1 then [map_index (lights m) (lightsList m ! 0)] else [])
      | light2 \<Rightarrow>
          (if length (lightsList m) \<ge> 2 then [map_index (lights m) (lightsList m ! 1)] else []))"

text \<open>The loop of \<open>toggleLights\<close>, counting errors and successes.\<close>

fun toggle_each :: "env \<Rightarrow> string list \<Rightarrow> nat \<Rightarrow> nat \<Rightarrow> trace \<Rightarrow> (nat \<times> nat) run \<times> trace" where
  "toggle_each e [] errorCount successCount tr = (Ret (errorCount, successCount), tr)"
| "toggle_each e (ip # ips) errorCount successCount tr =
     bind_run (toggleLight e ip tr)
       (\<lambda>err tr1. case err of
                     Some _ \<Rightarrow> toggle_each e ips (errorCount + 1) successCount tr1
                   | None \<Rightarrow> toggle_each e ips errorCount (successCount + 1) tr1)"

definition toggleLights :: "env \<Rightarrow> string list \<Rightarrow> model \<Rightarrow> trace \<Rightarrow> (model \<times> cmd) run \<times> trace" where
  "toggleLights e ks m tr =
     bind_run (toggle_each e (getSelectedLightIPs m ks) 0 0 tr)
       (\<lambda>(errorCount, successCount) tr1.
          (Ret ((if errorCount = 0 \<and> successCount > 0
                 then m\<lparr>message := LightsToggled successCount\<rparr>
                 else if errorCount > 0 then m\<lparr>message := ErrorTogglingLights\<rparr>
                 else m), NoCmd), tr1))"

text \<open>The loops of \<open>activateControl\<close>. The power loop drops the error of each write.\<close>

fun power_each :: "env \<Rightarrow> int \<Rightarrow> string list \<Rightarrow> trace \<Rightarrow> unit run \<times> trace" where
  "power_each e st [] tr = (Ret (), tr)"
| "power_each e st (ip # ips) tr =
     bind_run (setLight e ip (Some st) None None tr) (\<lambda>err tr1. power_each e st ips tr1)"

text \<open>
  The value loops stop at the first write that fails (\<open>success = false; break\<close>) and
  return \<open>success\<close>.
\<close>

fun brightness_each :: "env \<Rightarrow> int \<Rightarrow> string list \<Rightarrow> trace \<Rightarrow> bool run \<times> trace" where
  "brightness_each e b [] tr = (Ret True, tr)"
| "brightness_each e b (ip # ips) tr =
     bind_run (setLight e ip None (Some b) None tr)
       (\<lambda>err tr1. case err of
                     Some _ \<Rightarrow> (Ret False, tr1)
                   | None \<Rightarrow> brightness_each e b ips tr1)"

fun temperature_each :: "env \<Rightarrow> int \<Rightarrow> string list \<Rightarrow> trace \<Rightarrow> bool run \<times> trace" where
  "temperature_each e t [] tr = (Ret True, tr)"
| "temperature_each e t (ip # ips) tr =
     bind_run (setLight e ip None None (Some t) tr)
       (\<lambda>err tr1. case err of
                     Some _ \<Rightarrow> (Ret False, tr1)
                   | None \<Rightarrow> temperature_each e t ips tr1)"

definition activateControl :: "env \<Rightarrow> string list \<Rightarrow> model \<Rightarrow> trace \<Rightarrow> (model \<times> cmd) run \<times> trace" where
  "activateControl e ks m tr =
     (case focusedControl m of
        focusToggle \<Rightarrow> toggleLights e ks m tr
      | focusTurnOff \<Rightarrow>
          bind_run (power_each e 0 (getSelectedLightIPs m ks) tr)
            (\<lambda>_ tr1. (Ret (m\<lparr>message := LightsTurnedOff\<rparr>, NoCmd), tr1))
      | focusTurnOn \<Rightarrow>
          bind_run (power_each e 1 (getSelectedLightIPs m ks) tr)
            (\<lambda>_ tr1. (Ret (m\<lparr>message := LightsTurnedOn\<rparr>, NoCmd), tr1))
      | focusBrightness \<Rightarrow>
          bind_run (brightness_each e (brightnessValue m) (getSelectedLightIPs m ks) tr)
            (\<lambda>success tr1.
               if success then
                 (let config' = (config m)\<lparr>LastBrightness := brightnessValue m\<rparr>
                  in (Ret (m\<lparr>config := config',
                              message := BrightnessSetTo (brightnessValue m)\<rparr>, NoCmd),
                      saveConfig config' tr1))
               else (Ret (m\<lparr>message := ErrorSettingBrightness\<rparr>, NoCmd), tr1))
      | focusTemperature \<Rightarrow>
          bind_run (temperature_each e (temperatureValue m) (getSelectedLightIPs m ks) tr)
            (\<lambda>success tr1.
               if success then
                 (let config' = (config m)\<lparr>LastTemperature := temperatureValue m\<rparr>
                  in (Ret (m\<lparr>config := config',
                              message := TemperatureSetTo (temperatureValue m)\<rparr>, NoCmd),
                      saveConfig config' tr1))
               else (Ret (m\<lparr>message := ErrorSettingTemperature\<rparr>, NoCmd), tr1)))"

text \<open>
  \<open>Update\<close>. The first \<open>switch\<close> handles the selection shortcuts and returns; the second
  one is the navigation. Key \<open>d\<close> starts \<open>discoverLights\<close> in a goroutine of its own,
  which is recorded as an event and not followed further.
\<close>

definition Update :: "env \<Rightarrow> string list \<Rightarrow> msg \<Rightarrow> model \<Rightarrow> trace \<Rightarrow> (model \<times> cmd) run \<times> trace" where
  "Update e ks ms m tr =
     (case ms of
        OtherMsg \<Rightarrow> (Ret (m, NoCmd), tr)
      | KeyMsg key \<Rightarrow>
          if key = ''a'' then
            (Ret (m\<lparr>selectedLightMode := allLights, message := ControllingAllLights\<rparr>, NoCmd), tr)
          else if key = ''1'' then
            (Ret (if length (lightsList m) \<ge> 1
                  then m\<lparr>selectedLightMode := light1,
                         message := Controlling (lightsList m ! 0)\<rparr>
                  else m, NoCmd), tr)
          else if key = ''2'' then
            (Ret (if length (lightsList m) \<ge> 2
                  then m\<lparr>selectedLightMode := light2,
                         message := Controlling (lightsList m ! 1)\<rparr>
                  else m, NoCmd), tr)
          else if key = ''ctrl+c'' \<or> key = ''q'' then
            (Ret (m\<lparr>quitting := True\<rparr>, Quit), tr)
          else if key = ''d'' then
            (Ret (m\<lparr>message := DiscoveringLights\<rparr>, NoCmd), tr @ [GoDiscoverLights])
          else if key = ''up'' \<or> key = ''k'' then
            (Ret (if focusedControl m = focusBrightness then m\<lparr>focusedControl := focusToggle\<rparr>
                  else if focusedControl m = focusTemperature
                  then m\<lparr>focusedControl := focusBrightness\<rparr>
                  else m, NoCmd), tr)
          else if key = ''down'' \<or> key = ''j'' then
            (Ret (if focus_iota (focusedControl m) \<le> focus_iota focusTurnOn
                  then m\<lparr>focusedControl := focusBrightness\<rparr>
                  else if focusedControl m = focusBrightness
                  then m\<lparr>focusedControl := focusTemperature\<rparr>
                  else m, NoCmd), tr)
          else if key = ''left'' \<or> key = ''h'' then
            (Ret (if focusedControl m = focusTurnOff then m\<lparr>focusedControl := focusToggle\<rparr>
                  else if focusedControl m = focusTurnOn then m\<lparr>focusedControl := focusTurnOff\<rparr>
                  else if focusedControl m = focusBrightness then
                    (if wrap64 (brightnessValue m - 5) < 3 then m\<lparr>brightnessValue := 3\<rparr>
                     else m\<lparr>brightnessValue := wrap64 (brightnessValue m - 5)\<rparr>)
                  else if focusedControl m = focusTemperature then
                    (if wrap64 (temperatureValue m - 200) < 2900
                     then m\<lparr>temperatureValue := 2900\<rparr>
                     else m\<lparr>temperatureValue := wrap64 (temperatureValue m - 200)\<rparr>)
                  else m, NoCmd), tr)
          else if key = ''right'' \<or> key = ''l'' then
            (Ret (if focusedControl m = focusToggle then m\<lparr>focusedControl := focusTurnOff\<rparr>
                  else if focusedControl m = focusTurnOff then m\<lparr>focusedControl := focusTurnOn\<rparr>
                  else if focusedControl m = focusBrightness then
                    (if wrap64 (brightnessValue m + 5) > 100 then m\<lparr>brightnessValue := 100\<rparr>
                     else m\<lparr>brightnessValue := wrap64 (brightnessValue m + 5)\<rparr>)
                  else if focusedControl m = focusTemperature then
                    (if wrap64 (temperatureValue m + 200) > 7000
                     then m\<lparr>temperatureValue := 7000\<rparr>
                     else m\<lparr>temperatureValue := wrap64 (temperatureValue m + 200)\<rparr>)
                  else m, NoCmd), tr)
          else if key = ''enter'' \<or> key = '' '' then activateControl e ks m tr
          else (Ret (m, NoCmd), tr))"

section \<open>One-shot commands\<close>

text \<open>
  \<open>cliBrightness\<close>. Each loop runs over the pairs of \<open>config.Lights\<close> in the order it
  is given. The relative steps read each light, add or subtract 5 and clamp on the side
  the step moves to.
\<close>

fun bright_plus_each :: "env \<Rightarrow> (string \<times> string) list \<Rightarrow> trace \<Rightarrow> unit run \<times> trace" where
  "bright_plus_each e [] tr = (Ret (), tr)"
| "bright_plus_each e ((name, ip) # rest) tr =
     (case getLightState e ip tr of
        (Inl err, tr1) \<Rightarrow> bright_plus_each e rest (tr1 @ [Print (FailedToGetState name)])
      | (Inr state, tr1) \<Rightarrow>
          (let newBright = (if wrap64 (Brightness state + 5) > 100 then 100
                            else wrap64 (Brightness state + 5))
           in bind_run (setLight e ip None (Some newBright) None tr1)
                (\<lambda>err tr2.
                   bright_plus_each e rest
                     (tr2 @ [Print (case err of
                                      Some _ \<Rightarrow> FailedToAdjust name
                                    | None \<Rightarrow> BrightnessIs name newBright)]))))"

fun bright_minus_each :: "env \<Rightarrow> (string \<times> string) list \<Rightarrow> trace \<Rightarrow> unit run \<times> trace" where
  "bright_minus_each e [] tr = (Ret (), tr)"
| "bright_minus_each e ((name, ip) # rest) tr =
     (case getLightState e ip tr of
        (Inl err, tr1) \<Rightarrow> bright_minus_each e rest (tr1 @ [Print (FailedToGetState name)])
      | (Inr state, tr1) \<Rightarrow>
          (let newBright = (if wrap64 (Brightness state - 5) < 3 then 3
                            else wrap64 (Brightness state - 5))
           in bind_run (setLight e ip None (Some newBright) None tr1)
                (\<lambda>err tr2.
                   bright_minus_each e rest
                     (tr2 @ [Print (case err of
                                      Some _ \<Rightarrow> FailedToAdjust name
                                    | None \<Rightarrow> BrightnessIs name newBright)]))))"

text \<open>The first loop of \<open>bright =\<close>: \<open>totalBright\<close> and \<open>count\<close> over the lights that answer.\<close>

fun bright_total ::
  "env \<Rightarrow> (string \<times> string) list \<Rightarrow> int \<Rightarrow> int \<Rightarrow> trace \<Rightarrow> (int \<times> int) \<times> trace" where
  "bright_total e [] totalBright count tr = ((totalBright, count), tr)"
| "bright_total e ((name, ip) # rest) totalBright count tr =
     (case getLightState e ip tr of
        (Inr state, tr1) \<Rightarrow>
          bright_total e rest (wrap64 (totalBright + Brightness state)) (wrap64 (count + 1)) tr1
      | (Inl err, tr1) \<Rightarrow> bright_total e rest totalBright count tr1)"

text \<open>The loop that writes one brightness to every light (\<open>bright =\<close> and \<open>bright <value>\<close>).\<close>

fun bright_set_each :: "env \<Rightarrow> int \<Rightarrow> (string \<times> string) list \<Rightarrow> trace \<Rightarrow> unit run \<times> trace" where
  "bright_set_each e b [] tr = (Ret (), tr)"
| "bright_set_each e b ((name, ip) # rest) tr =
     bind_run (setLight e ip None (Some b) None tr)
       (\<lambda>err tr1.
          bright_set_each e b rest
            (tr1 @ [Print (case err of
                             Some _ \<Rightarrow> FailedToSet name
                           | None \<Rightarrow> BrightnessIs name b)]))"

text \<open>
  \<open>args\<close> is \<open>os.Args\<close>; \<open>ks1\<close> and \<open>ks2\<close> are the orders of the first and of the second
  loop over \<open>config.Lights\<close> that the call runs. \<open>cfg\<close> is the \<open>Config\<close> behind the
  pointer \<open>config\<close>, and the result is what is behind it when the call returns.
\<close>

definition cliBrightness ::
  "env \<Rightarrow> Config \<Rightarrow> string list \<Rightarrow> string list \<Rightarrow> string list \<Rightarrow> trace \<Rightarrow> Config run \<times> trace" where
  "cliBrightness e cfg args ks1 ks2 tr =
     (if length args < 3 then (Exit 1, tr @ [Print Usage])
      else
        (let action = args ! 2 in
         if action = ''+'' then
           bind_run (bright_plus_each e (range_entries (Lights cfg) ks1) tr)
             (\<lambda>_ tr1. (Ret cfg, tr1))
         else if action = ''-'' then
           bind_run (bright_minus_each e (range_entries (Lights cfg) ks1) tr)
             (\<lambda>_ tr1. (Ret cfg, tr1))
         else if action = ''='' then
           (case bright_total e (range_entries (Lights cfg) ks1) 0 0 tr of
              ((totalBright, count), tr1) \<Rightarrow>
                if count = 0 then (Ret cfg, tr1 @ [Print CouldNotReadAnyLights])
                else
                  (case go_div totalBright count of
                     None \<Rightarrow> (Panic, tr1)
                   | Some avgBright \<Rightarrow>
                       bind_run
                         (bright_set_each e avgBright (range_entries (Lights cfg) ks2)
                            (tr1 @ [Print (SettingAllLightsTo avgBright)]))
                         (\<lambda>_ tr2. (Ret cfg, tr2))))
         else
           (case sscan_int e action of
              Some brightness \<Rightarrow>
                if brightness < 3 \<or> brightness > 100
                then (Exit 1, tr @ [Print (MustBeBetween 3 100)])
                else
                  bind_run (bright_set_each e brightness (range_entries (Lights cfg) ks1) tr)
                    (\<lambda>_ tr1.
                       (let cfg' = cfg\<lparr>LastBrightness := brightness\<rparr>
                        in (Ret cfg', saveConfig cfg' tr1)))
            | None \<Rightarrow> (Exit 1, tr @ [Print InvalidValue]))))"

text \<open>
  \<open>cliTemperature\<close>. The device reports the wire value; \<open>int(1000000 / state.Temperature)\<close>
  makes Kelvin of it and panics on a reported 0.
\<close>

fun temp_plus_each :: "env \<Rightarrow> (string \<times> string) list \<Rightarrow> trace \<Rightarrow> unit run \<times> trace" where
  "temp_plus_each e [] tr = (Ret (), tr)"
| "temp_plus_each e ((name, ip) # rest) tr =
     (case getLightState e ip tr of
        (Inl err, tr1) \<Rightarrow> temp_plus_each e rest (tr1 @ [Print (FailedToGetState name)])
      | (Inr state, tr1) \<Rightarrow>
          (case go_div 1000000 (Temperature state) of
             None \<Rightarrow> (Panic, tr1)
           | Some currentTemp \<Rightarrow>
               (let newTemp = (if wrap64 (currentTemp + 200) > 7000 then 7000
                               else wrap64 (currentTemp + 200))
                in bind_run (setLight e ip None None (Some newTemp) tr1)
                     (\<lambda>err tr2.
                        temp_plus_each e rest
                          (tr2 @ [Print (case err of
                                           Some _ \<Rightarrow> FailedToAdjust name
                                         | None \<Rightarrow> TemperatureIs name newTemp)])))))"

fun temp_minus_each :: "env \<Rightarrow> (string \<times> string) list \<Rightarrow> trace \<Rightarrow> unit run \<times> trace" where
  "temp_minus_each e [] tr = (Ret (), tr)"
| "temp_minus_each e ((name, ip) # rest) tr =
     (case getLightState e ip tr of
        (Inl err, tr1) \<Rightarrow> temp_minus_each e rest (tr1 @ [Print (FailedToGetState name)])
      | (Inr state, tr1) \<Rightarrow>
          (case go_div 1000000 (Temperature state) of
             None \<Rightarrow> (Panic, tr1)
           | Some currentTemp \<Rightarrow>
               (let newTemp = (if wrap64 (currentTemp - 200) < 2900 then 2900
                               else wrap64 (currentTemp - 200))
                in bind_run (setLight e ip None None (Some newTemp) tr1)
                     (\<lambda>err tr2.
                        temp_minus_each e rest
                          (tr2 @ [Print (case err of
                                           Some _ \<Rightarrow> FailedToAdjust name
                                         | None \<Rightarrow> TemperatureIs name newTemp)])))))"

fun temp_total ::
  "env \<Rightarrow> (string \<times> string) list \<Rightarrow> int \<Rightarrow> int \<Rightarrow> trace \<Rightarrow> (int \<times> int) run \<times> trace" where
  "temp_total e [] totalTemp count tr = (Ret (totalTemp, count), tr)"
| "temp_total e ((name, ip) # rest) totalTemp count tr =
     (case getLightState e ip tr of
        (Inr state, tr1) \<Rightarrow>
          (case go_div 1000000 (Temperature state) of
             None \<Rightarrow> (Panic, tr1)
           | Some kelvin \<Rightarrow>
               temp_total e rest (wrap64 (totalTemp + kelvin)) (wrap64 (count + 1)) tr1)
      | (Inl err, tr1) \<Rightarrow> temp_total e rest totalTemp count tr1)"

fun temp_set_each :: "env \<Rightarrow> int \<Rightarrow> (string \<times> string) list \<Rightarrow> trace \<Rightarrow> unit run \<times> trace" where
  "temp_set_each e t [] tr = (Ret (), tr)"
| "temp_set_each e t ((name, ip) # rest) tr =
     bind_run (setLight e ip None None (Some t) tr)
       (\<lambda>err tr1.
          temp_set_each e t rest
            (tr1 @ [Print (case err of
                             Some _ \<Rightarrow> FailedToSet name
                           | None \<Rightarrow> TemperatureIs name t)]))"

definition cliTemperature ::
  "env \<Rightarrow> Config \<Rightarrow> string list \<Rightarrow> string list \<Rightarrow> string list \<Rightarrow> trace \<Rightarrow> Config run \<times> trace" where
  "cliTemperature e cfg args ks1 ks2 tr =
     (if length args < 3 then (Exit 1, tr @ [Print Usage])
      else
        (let action = args ! 2 in
         if action = ''+'' then
           bind_run (temp_plus_each e (range_entries (Lights cfg) ks1) tr)
             (\<lambda>_ tr1. (Ret cfg, tr1))
         else if action = ''-'' then
           bind_run (temp_minus_each e (range_entries (Lights cfg) ks1) tr)
             (\<lambda>_ tr1. (Ret cfg, tr1))
         else if action = ''='' then
           bind_run (temp_total e (range_entries (Lights cfg) ks1) 0 0 tr)
             (\<lambda>(totalTemp, count) tr1.
                if count = 0 then (Ret cfg, tr1 @ [Print CouldNotReadAnyLights])
                else
                  (case go_div totalTemp count of
                     None \<Rightarrow> (Panic, tr1)
                   | Some avgTemp \<Rightarrow>
                       bind_run
                         (temp_set_each e avgTemp (range_entries (Lights cfg) ks2)
                            (tr1 @ [Print (SettingAllLightsTo avgTemp)]))
                         (\<lambda>_ tr2. (Ret cfg, tr2))))
         else
           (case sscan_int e action of
              Some temperature \<Rightarrow>
                if temperature < 2900 \<or> temperature > 7000
                then (Exit 1, tr @ [Print (MustBeBetween 2900 7000)])
                else
                  bind_run (temp_set_each e temperature (range_entries (Lights cfg) ks1) tr)
                    (\<lambda>_ tr1.
                       (let cfg' = cfg\<lparr>LastTemperature := temperature\<rparr>
                        in (Ret cfg', saveConfig cfg' tr1)))
            | None \<Rightarrow> (Exit 1, tr @ [Print InvalidValue]))))"

text \<open>
  \<open>cliSpecificLight\<close>. The two search loops, then the command on the light found. An
  identifier that scans as a positive number is looked up by position: the loop counts
  the pairs from 1 in the order it visits them.
\<close>

fun find_by_index :: "(string \<times> string) list \<Rightarrow> int \<Rightarrow> int \<Rightarrow> string \<times> string" where
  "find_by_index [] i index = ('''', '''')"
| "find_by_index ((name, ip) # rest) i index =
     (if i = index then (ip, name) else find_by_index rest (i + 1) index)"

fun find_by_name :: "(string \<times> string) list \<Rightarrow> string \<Rightarrow> string \<times> string" where
  "find_by_name [] lightIdentifier = ('''', '''')"
| "find_by_name ((name, ip) # rest) lightIdentifier =
     (if name = lightIdentifier then (ip, name) else find_by_name rest lightIdentifier)"

text \<open>\<open>(targetIP, targetName)\<close> after the search; both are \<open>""\<close> when nothing matched.\<close>

definition find_target :: "env \<Rightarrow> Config \<Rightarrow> string \<Rightarrow> string list \<Rightarrow> string \<times> string" where
  "find_target e cfg lightIdentifier ks =
     (case sscan_int e lightIdentifier of
        Some index \<Rightarrow>
          if index > 0 then find_by_index (range_entries (Lights cfg) ks) 1 index
          else find_by_name (range_entries (Lights cfg) ks) lightIdentifier
      | None \<Rightarrow> find_by_name (range_entries (Lights cfg) ks) lightIdentifier)"

definition specific_bright ::
  "env \<Rightarrow> string \<Rightarrow> string \<Rightarrow> string list \<Rightarrow> trace \<Rightarrow> unit run \<times> trace" where
  "specific_bright e targetIP targetName args tr =
     (if length args < 4 then (Exit 1, tr @ [Print Usage])
      else
        (let action = args ! 3 in
         if action = ''+'' then
           (case getLightState e targetIP tr of
              (Inl err, tr1) \<Rightarrow> (Exit 1, tr1 @ [Print (FailedToGetState targetName)])
            | (Inr state, tr1) \<Rightarrow>
                (let newBright = (if wrap64 (Brightness state + 5) > 100 then 100
                            else wrap64 (Brightness state + 5))
                 in bind_run (setLight e targetIP None (Some newBright) None tr1)
                      (\<lambda>err tr2.
                         (Ret (), tr2 @ [Print (case err of
                                                  Some _ \<Rightarrow> FailedToAdjust targetName
                                                | None \<Rightarrow> BrightnessIs targetName newBright)]))))
         else if action = ''-'' then
           (case getLightState e targetIP tr of
              (Inl err, tr1) \<Rightarrow> (Exit 1, tr1 @ [Print (FailedToGetState targetName)])
            | (Inr state, tr1) \<Rightarrow>
                (let newBright = (if wrap64 (Brightness state - 5) < 3 then 3
                            else wrap64 (Brightness state - 5))
                 in bind_run (setLight e targetIP None (Some newBright) None tr1)
                      (\<lambda>err tr2.
                         (Ret (), tr2 @ [Print (case err of
                                                  Some _ \<Rightarrow> FailedToAdjust targetName
                                                | None \<Rightarrow> BrightnessIs targetName newBright)]))))
         else
           (case sscan_int e action of
              Some brightness \<Rightarrow>
                if brightness < 3 \<or> brightness > 100
                then (Exit 1, tr @ [Print (MustBeBetween 3 100)])
                else
                  bind_run (setLight e targetIP None (Some brightness) None tr)
                    (\<lambda>err tr1.
                       (Ret (), tr1 @ [Print (case err of
                                                Some _ \<Rightarrow> FailedToSetBrightness targetName
                                              | None \<Rightarrow> BrightnessIs targetName brightness)]))
            | None \<Rightarrow> (Exit 1, tr @ [Print InvalidValue]))))"

definition specific_temp ::
  "env \<Rightarrow> string \<Rightarrow> string \<Rightarrow> string list \<Rightarrow> trace \<Rightarrow> unit run \<times> trace" where
  "specific_temp e targetIP targetName args tr =
     (if length args < 4 then (Exit 1, tr @ [Print Usage])
      else
        (let action = args ! 3 in
         if action = ''+'' then
           (case getLightState e targetIP tr of
              (Inl err, tr1) \<Rightarrow> (Exit 1, tr1 @ [Print (FailedToGetState targetName)])
            | (Inr state, tr1) \<Rightarrow>
                (case go_div 1000000 (Temperature state) of
                   None \<Rightarrow> (Panic, tr1)
                 | Some currentTemp \<Rightarrow>
                     (let newTemp = (if wrap64 (currentTemp + 200) > 7000 then 7000
                               else wrap64 (currentTemp + 200))
                      in bind_run (setLight e targetIP None None (Some newTemp) tr1)
                           (\<lambda>err tr2.
                              (Ret (), tr2 @ [Print (case err of
                                                       Some _ \<Rightarrow> FailedToAdjust targetName
                                                     | None \<Rightarrow> TemperatureIs targetName newTemp)])))))
         else if action = ''-'' then
           (case getLightState e targetIP tr of
              (Inl err, tr1) \<Rightarrow> (Exit 1, tr1 @ [Print (FailedToGetState targetName)])
            | (Inr state, tr1) \<Rightarrow>
                (case go_div 1000000 (Temperature state) of
                   None \<Rightarrow> (Panic, tr1)
                 | Some currentTemp \<Rightarrow>
                     (let newTemp = (if wrap64 (currentTemp - 200) < 2900 then 2900
                               else wrap64 (currentTemp - 200))
                      in bind_run (setLight e targetIP None None (Some newTemp) tr1)
                           (\<lambda>err tr2.
                              (Ret (), tr2 @ [Print (case err of
                                                       Some _ \<Rightarrow> FailedToAdjust targetName
                                                     | None \<Rightarrow> TemperatureIs targetName newTemp)])))))
         else
           (case sscan_int e action of
              Some temperature \<Rightarrow>
                if temperature < 2900 \<or> temperature > 7000
                then (Exit 1, tr @ [Print (MustBeBetween 2900 7000)])
                else
                  bind_run (setLight e targetIP None None (Some temperature) tr)
                    (\<lambda>err tr1.
                       (Ret (), tr1 @ [Print (case err of
                                                Some _ \<Rightarrow> FailedToSetTemperature targetName
                                              | None \<Rightarrow> TemperatureIs targetName temperature)]))
            | None \<Rightarrow> (Exit 1, tr @ [Print InvalidValue]))))"

definition cliSpecificLight ::
  "env \<Rightarrow> Config \<Rightarrow> string \<Rightarrow> string list \<Rightarrow> string list \<Rightarrow> trace \<Rightarrow> unit run \<times> trace" where
  "cliSpecificLight e cfg lightIdentifier args ks tr =
     (case find_target e cfg lightIdentifier ks of
        (targetIP, targetName) \<Rightarrow>
          if targetIP = '''' then (Exit 1, tr @ [Print (LightNotFound lightIdentifier)])
          else if length args < 3 then
            (case toggleLightFast e targetIP tr of
               (Some err, tr1) \<Rightarrow> (Exit 1, tr1 @ [Print (FailedToToggle targetName err)])
             | (None, tr1) \<Rightarrow> (Ret (), tr1 @ [Print (Toggled targetName)]))
          else
            (let command = args ! 2 in
             if command = ''on'' then
               bind_run (setLight e targetIP (Some 1) None None tr)
                 (\<lambda>err tr1.
                    (Ret (), tr1 @ [Print (case err of
                                             Some _ \<Rightarrow> FailedToTurnOn targetName
                                           | None \<Rightarrow> TurnedOn targetName)]))
             else if command = ''off'' then
               bind_run (setLight e targetIP (Some 0) None None tr)
                 (\<lambda>err tr1.
                    (Ret (), tr1 @ [Print (case err of
                                             Some _ \<Rightarrow> FailedToTurnOff targetName
                                           | None \<Rightarrow> TurnedOff targetName)]))
             else if command = ''bright'' then specific_bright e targetIP targetName args tr
             else if command = ''temp'' then specific_temp e targetIP targetName args tr
             else if command = ''status'' then
               (case getLightState e targetIP tr of
                  (Inl err, tr1) \<Rightarrow> (Ret (), tr1 @ [Print (Offline targetName)])
                | (Inr state, tr1) \<Rightarrow>
                    (case go_div 1000000 (Temperature state) of
                       None \<Rightarrow> (Panic, tr1)
                     | Some temp \<Rightarrow>
                         (Ret (), tr1 @ [Print (Status targetName (On state = 1)
                                                  (Brightness state) temp)])))
             else (Exit 1, tr @ [Print (UnknownCommand command)])))"

section \<open>The range of a value, in the words of the specification\<close>

text \<open>Clamping to a range: a value below \<open>lo\<close> becomes \<open>lo\<close>, one above \<open>hi\<close> becomes \<open>hi\<close>.\<close>

definition clamp_to :: "int \<Rightarrow> int \<Rightarrow> int \<Rightarrow> int" where
  "clamp_to lo hi x = (if x < lo then lo else if x > hi then hi else x)"

text \<open>
  The conversion between Kelvin and the wire scale, in the words of the specification:
  \<open>wire = round(1_000_000 / kelvin)\<close> and \<open>kelvin = round(1_000_000 / wire)\<close>.
\<close>

definition spec_wire_of_kelvin :: "int \<Rightarrow> int" where
  "spec_wire_of_kelvin kelvin = round (1000000 / real_of_int kelvin)"

definition spec_kelvin_of_wire :: "int \<Rightarrow> int" where
  "spec_kelvin_of_wire wire = round (1000000 / real_of_int wire)"

section \<open>Notions used to state the properties\<close>

text \<open>What \<open>getLightState\<close> makes of the reply to its GET.\<close>

definition decode_reply :: "error + http_response \<Rightarrow> error + LightState" where
  "decode_reply r =
     (case r of
        Inl err \<Rightarrow> Inl err
      | Inr resp \<Rightarrow>
          (case Body resp of
             Undecodable err \<Rightarrow> Inl err
           | Json [] \<Rightarrow> Inl NoLightsInResponse
           | Json (s # _) \<Rightarrow> Inr s))"

text \<open>
  The reads of a loop that calls \<open>getLightState\<close> once per light and nothing else in
  between, starting when the trace has \<open>n\<close> events; and the states of the lights that
  could be read.
\<close>

fun readings :: "env \<Rightarrow> nat \<Rightarrow> (string \<times> string) list \<Rightarrow> (error + LightState) list" where
  "readings e n [] = []"
| "readings e n ((name, ip) # rest) = decode_reply (http_get e n ip) # readings e (Suc n) rest"

definition readable :: "(error + LightState) list \<Rightarrow> LightState list" where
  "readable rs = List.map_filter (\<lambda>r. case r of Inl _ \<Rightarrow> None | Inr s \<Rightarrow> Some s) rs"

text \<open>The writes of a trace: address and patch of every PUT, in order.\<close>

definition puts :: "trace \<Rightarrow> (string \<times> light_patch) list" where
  "puts tr = List.map_filter (\<lambda>ev. case ev of HttpPut ip p \<Rightarrow> Some (ip, p) | _ \<Rightarrow> None) tr"

definition saves :: "trace \<Rightarrow> Config list" where
  "saves tr = List.map_filter (\<lambda>ev. case ev of SaveConfig c \<Rightarrow> Some c | _ \<Rightarrow> None) tr"

definition brightness_patch :: "int \<Rightarrow> light_patch" where
  "brightness_patch b = \<lparr>patch_on = None, patch_brightness = Some b, patch_temperature = None\<rparr>"

definition temperature_patch :: "int \<Rightarrow> light_patch" where
  "temperature_patch w = \<lparr>patch_on = None, patch_brightness = None, patch_temperature = Some w\<rparr>"

text \<open>
  The arithmetic mean of a list of integers, and a rational cut to an integer towards
  zero.
\<close>

definition mean :: "int list \<Rightarrow> real" where
  "mean vs = real_of_int (sum_list vs) / real (length vs)"

definition toward_zero :: "real \<Rightarrow> int" where
  "toward_zero x = (if 0 \<le> x then \<lfloor>x\<rfloor> else \<lceil>x\<rceil>)"

text \<open>
  The Kelvin value the temperature commands compute from a state that was read:
  \<open>int(1000000 / state.Temperature)\<close>, for a reported wire value other than 0.
\<close>

definition kelvin_read :: "LightState \<Rightarrow> int" where
  "kelvin_read s = (case go_div 1000000 (Temperature s) of Some k \<Rightarrow> k | None \<Rightarrow> 0)"

text \<open>The error that \<open>setLight\<close> returns for the outcome of its PUT.\<close>

definition put_error :: "error + http_response \<Rightarrow> error option" where
  "put_error r =
     (case r of
        Inl err \<Rightarrow> Some err
      | Inr resp \<Rightarrow> if StatusCode resp \<noteq> 200 then Some (ApiStatus (StatusCode resp)) else None)"

text \<open>
  Ranges. A network reports in range when every state that can be read from it has a
  brightness between 3 and 100 and a wire temperature between 143 and 344, the bounds of
  the device. The pending values of a session are in range when the brightness is
  between 3 and 100 and the temperature between 2900 and 7000.
\<close>

definition reports_in_range :: "env \<Rightarrow> bool" where
  "reports_in_range e \<longleftrightarrow>
     (\<forall>n ip s. decode_reply (http_get e n ip) = Inr s \<longrightarrow>
        3 \<le> Brightness s \<and> Brightness s \<le> 100 \<and>
        143 \<le> Temperature s \<and> Temperature s \<le> 344)"

definition pending_in_range :: "model \<Rightarrow> bool" where
  "pending_in_range m \<longleftrightarrow>
     3 \<le> brightnessValue m \<and> brightnessValue m \<le> 100 \<and>
     2900 \<le> temperatureValue m \<and> temperatureValue m \<le> 7000"

text \<open>
  The writes of a relative step over the lights, when every light that can be read is
  sent the patch \<open>f\<close> makes of its state: the lights are read one after the other, a
  light that cannot be read is skipped, and the read of the next light comes two events
  later after a skipped light (its GET and the printed failure) and three events later
  after a light that was written to (its GET, its PUT and the printed line).
\<close>

fun step_writes ::
  "env \<Rightarrow> (LightState \<Rightarrow> light_patch) \<Rightarrow> nat \<Rightarrow> (string \<times> string) list \<Rightarrow>
   (string \<times> light_patch) list" where
  "step_writes e f n [] = []"
| "step_writes e f n ((name, ip) # rest) =
     (case decode_reply (http_get e n ip) of
        Inl err \<Rightarrow> step_writes e f (n + 2) rest
      | Inr s \<Rightarrow> (ip, f s) # step_writes e f (n + 3) rest)"

section \<open>Example worlds\<close>

text \<open>
  Concrete configurations, sessions and device behaviours at which the properties below
  are evaluated. \<open>steady_env g p\<close> answers every GET with \<open>g\<close> and every PUT with \<open>p\<close>.
\<close>

definition steady_env :: "(error + http_response) \<Rightarrow> (error + http_response) \<Rightarrow> env" where
  "steady_env g p =
     \<lparr>http_get = (\<lambda>n ip. g), http_put = (\<lambda>n ip patch. p), sscan_int = (\<lambda>s. None)\<rparr>"

definition ok_response :: http_response where
  "ok_response = \<lparr>StatusCode = 200, Body = Json []\<rparr>"

definition lit_40 :: LightState where
  "lit_40 = \<lparr>On = 1, Brightness = 40, Temperature = 200\<rparr>"

text \<open>
  A light that does not answer the first two attempts of a fast toggle: the requests
  issued before the fifth event of the run fail in transport.
\<close>

definition flaky_env :: env where
  "flaky_env =
     \<lparr>http_get = (\<lambda>n ip. if n < 4 then Inl TransportErr
                          else Inr \<lparr>StatusCode = 200,
                                    Body = Json [\<lparr>On = 0, Brightness = 40, Temperature = 200\<rparr>]\<rparr>),
      http_put = (\<lambda>n ip patch. Inr ok_response),
      sscan_int = (\<lambda>s. None)\<rparr>"

text \<open>A session with a single light registered.\<close>

definition one_light :: model where
  "one_light =
     \<lparr>config = \<lparr>Lights = [''Key Light'' \<mapsto> ''10.0.0.1''], LastBrightness = 50,
                 LastTemperature = 4000, LastSelectedLight = ''''\<rparr>,
      lights = [''Key Light'' \<mapsto> ''10.0.0.1''], lightsList = [''Key Light''],
      selectedLightMode = allLights, focusedControl = focusToggle,
      brightnessValue = 50, temperatureValue = 4000, message = NoNotice, quitting = False\<rparr>"

text \<open>A configuration file that parses, with both stored values 0.\<close>

definition zero_document :: Config where
  "zero_document =
     \<lparr>Lights = [''Key Light'' \<mapsto> ''10.0.0.1''], LastBrightness = 0, LastTemperature = 0,
      LastSelectedLight = ''''\<rparr>"

text \<open>
  Configurations with two and with three lights, a scanner that knows the numbers used
  below, and networks: one where every light answers, one where the light at
  \<open>10.0.0.3\<close> rejects every write with status 500, and one where the lights at
  \<open>10.0.0.1\<close> and \<open>10.0.0.2\<close> report brightness 40 and 60 (wire temperature 200 and
  250) and the light at \<open>10.0.0.3\<close> cannot be reached for reading.
\<close>

definition two_lights :: Config where
  "two_lights =
     \<lparr>Lights = [''Left'' \<mapsto> ''10.0.0.1'', ''Right'' \<mapsto> ''10.0.0.2''],
      LastBrightness = 50, LastTemperature = 4000, LastSelectedLight = ''''\<rparr>"

definition three_lights :: Config where
  "three_lights =
     \<lparr>Lights = [''Left'' \<mapsto> ''10.0.0.1'', ''Right'' \<mapsto> ''10.0.0.2'', ''Back'' \<mapsto> ''10.0.0.3''],
      LastBrightness = 50, LastTemperature = 4000, LastSelectedLight = ''''\<rparr>"

definition cli_scan :: "string \<Rightarrow> int option" where
  "cli_scan s =
     (if s = ''1'' then Some 1 else if s = ''2'' then Some 2
      else if s = ''70'' then Some 70 else if s = ''5000'' then Some 5000 else None)"

definition healthy_env :: env where
  "healthy_env =
     \<lparr>http_get = (\<lambda>n ip. Inr \<lparr>StatusCode = 200, Body = Json [lit_40]\<rparr>),
      http_put = (\<lambda>n ip patch. Inr ok_response),
      sscan_int = cli_scan\<rparr>"

definition rejecting_env :: env where
  "rejecting_env =
     \<lparr>http_get = (\<lambda>n ip. Inr \<lparr>StatusCode = 200, Body = Json [lit_40]\<rparr>),
      http_put = (\<lambda>n ip patch. if ip = ''10.0.0.3''
                                 then Inr \<lparr>StatusCode = 500, Body = Json []\<rparr>
                                 else Inr ok_response),
      sscan_int = cli_scan\<rparr>"

definition mixed_env :: env where
  "mixed_env =
     \<lparr>http_get = (\<lambda>n ip.
         if ip = ''10.0.0.1''
         then Inr \<lparr>StatusCode = 200,
                   Body = Json [\<lparr>On = 1, Brightness = 40, Temperature = 200\<rparr>]\<rparr>
         else if ip = ''10.0.0.2''
         then Inr \<lparr>StatusCode = 200,
                   Body = Json [\<lparr>On = 1, Brightness = 60, Temperature = 250\<rparr>]\<rparr>
         else Inl TransportErr),
      http_put = (\<lambda>n ip patch. Inr ok_response),
      sscan_int = cli_scan\<rparr>"

text \<open>
  Two lights that report brightness 40 and 61; and lights whose reply carries no
  temperature, which decodes to the wire value 0.
\<close>

definition uneven_env :: env where
  "uneven_env =
     \<lparr>http_get = (\<lambda>n ip.
         if ip = ''10.0.0.1''
         then Inr \<lparr>StatusCode = 200,
                   Body = Json [\<lparr>On = 1, Brightness = 40, Temperature = 200\<rparr>]\<rparr>
         else Inr \<lparr>StatusCode = 200,
                   Body = Json [\<lparr>On = 1, Brightness = 61, Temperature = 250\<rparr>]\<rparr>),
      http_put = (\<lambda>n ip patch. Inr ok_response),
      sscan_int = cli_scan\<rparr>"

definition no_temperature_env :: env where
  "no_temperature_env =
     \<lparr>http_get = (\<lambda>n ip.
         Inr \<lparr>StatusCode = 200, Body = Json [\<lparr>On = 1, Brightness = 40, Temperature = 0\<rparr>]\<rparr>),
      http_put = (\<lambda>n ip patch. Inr ok_response),
      sscan_int = cli_scan\<rparr>"

text \<open>Lights that report a brightness of 200 and the wire temperature 100 (10000 K).\<close>

definition overdriven_env :: env where
  "overdriven_env =
     \<lparr>http_get = (\<lambda>n ip.
         Inr \<lparr>StatusCode = 200,
              Body = Json [\<lparr>On = 1, Brightness = 200, Temperature = 100\<rparr>]\<rparr>),
      http_put = (\<lambda>n ip patch. Inr ok_response),
      sscan_int = cli_scan\<rparr>"

text \<open>
  Lights that report the largest 64-bit brightness; and a configuration file that
  parses, with a stored brightness of 200.
\<close>

definition huge_env :: env where
  "huge_env =
     \<lparr>http_get = (\<lambda>n ip.
         Inr \<lparr>StatusCode = 200,
              Body = Json [\<lparr>On = 1, Brightness = 9223372036854775807, Temperature = 200\<rparr>]\<rparr>),
      http_put = (\<lambda>n ip patch. Inr ok_response),
      sscan_int = cli_scan\<rparr>"


section \<open>Properties\<close>

subsection \<open>Machine integers\<close>

lemma wrap64_id: "- (2 ^ 63) \<le> x \<Longrightarrow> x < 2 ^ 63 \<Longrightarrow> wrap64 x = x"
  by (simp add: wrap64_def)

subsection \<open>Go maps and their range orders\<close>

lemma range_entries_fst:
  "set ks \<subseteq> dom m \<Longrightarrow> map fst (range_entries m ks) = ks"
  by (induction ks)
     (auto simp add: range_entries_def split: option.splits)

lemma range_entries_names:
  "range_order m ks \<Longrightarrow> map fst (range_entries m ks) = ks"
  by (simp add: range_order_def range_entries_fst)

lemma range_entries_length:
  "range_order m ks \<Longrightarrow> length (range_entries m ks) = card (dom m)"
  using range_entries_names [of m ks] distinct_card [of ks]
  by (metis length_map range_order_def)

subsection \<open>Reading a device\<close>

text \<open>
  C8 fails as stated: a reply with status 500 whose body decodes to a non-empty list is
  a successful read.
\<close>

theorem read_succeeds_on_status_500:
  "StatusCode \<lparr>StatusCode = 500, Body = Json [lit_40]\<rparr> \<noteq> 200 \<and>
   fst (getLightState
          (steady_env (Inr \<lparr>StatusCode = 500, Body = Json [lit_40]\<rparr>) (Inr ok_response))
          ''10.0.0.1'' []) = Inr lit_40"
  by (simp add: getLightState_def steady_env_def)

text \<open>
  C8, as amended. \<open>getLightState\<close> fails on a transport error, on a body that does not
  decode and on an empty device list, and otherwise returns the first entry of the list
  only. The HTTP status plays no part: \<open>c\<close> is any status.
\<close>

theorem getLightState_outcomes:
  "(http_get e (length tr) ip = Inl err \<longrightarrow> fst (getLightState e ip tr) = Inl err) \<and>
   (http_get e (length tr) ip = Inr \<lparr>StatusCode = c, Body = Undecodable err\<rparr> \<longrightarrow>
      fst (getLightState e ip tr) = Inl err) \<and>
   (http_get e (length tr) ip = Inr \<lparr>StatusCode = c, Body = Json []\<rparr> \<longrightarrow>
      fst (getLightState e ip tr) = Inl NoLightsInResponse) \<and>
   (http_get e (length tr) ip = Inr \<lparr>StatusCode = c, Body = Json (s # rest)\<rparr> \<longrightarrow>
      fst (getLightState e ip tr) = Inr s) \<and>
   snd (getLightState e ip tr) = tr @ [HttpGet ip]"
  by (simp add: getLightState_def split: sum.split body.split list.split)

theorem getLightState_outcomes_witness:
  "fst (getLightState (steady_env (Inl TransportErr) (Inr ok_response)) ''10.0.0.1'' [])
     = Inl TransportErr \<and>
   fst (getLightState
          (steady_env (Inr \<lparr>StatusCode = 200, Body = Undecodable DecodeErr\<rparr>) (Inr ok_response))
          ''10.0.0.1'' []) = Inl DecodeErr \<and>
   fst (getLightState
          (steady_env (Inr \<lparr>StatusCode = 200, Body = Json []\<rparr>) (Inr ok_response))
          ''10.0.0.1'' []) = Inl NoLightsInResponse \<and>
   fst (getLightState
          (steady_env (Inr \<lparr>StatusCode = 404, Body = Json [lit_40, lit_40\<lparr>On := 0\<rparr>]\<rparr>)
             (Inr ok_response))
          ''10.0.0.1'' []) = Inr lit_40"
  using
    getLightState_outcomes [of "steady_env (Inl TransportErr) (Inr ok_response)" "[]"
      "''10.0.0.1''" TransportErr]
    getLightState_outcomes [of
      "steady_env (Inr \<lparr>StatusCode = 200, Body = Undecodable DecodeErr\<rparr>) (Inr ok_response)"
      "[]" "''10.0.0.1''" DecodeErr 200]
    getLightState_outcomes [of
      "steady_env (Inr \<lparr>StatusCode = 200, Body = Json []\<rparr>) (Inr ok_response)"
      "[]" "''10.0.0.1''" _ 200]
    getLightState_outcomes [of
      "steady_env (Inr \<lparr>StatusCode = 404, Body = Json [lit_40, lit_40\<lparr>On := 0\<rparr>]\<rparr>)
         (Inr ok_response)"
      "[]" "''10.0.0.1''" _ 404 lit_40 "[lit_40\<lparr>On := 0\<rparr>]"]
  by (simp add: steady_env_def)

subsection \<open>The fast toggle\<close>

text \<open>
  C5. \<open>toggleLightFast\<close> makes at most three attempts, one after the other, and sleeps
  100 ms after a failed attempt that is not the third. With \<open>a1\<close>, \<open>a2\<close>, \<open>a3\<close> the
  attempts in that order (each starting from the trace the previous one left, extended by
  the sleep), the call returns no error as soon as one attempt returns none, and
  otherwise the error of the third attempt wrapped in \<open>failed after 3 attempts\<close>.
\<close>

theorem toggleLightFast_three_attempts:
  assumes "a1 = toggleLightAttempt e ip tr"
      and "a2 = toggleLightAttempt e ip (snd a1 @ [Sleep 100])"
      and "a3 = toggleLightAttempt e ip (snd a2 @ [Sleep 100])"
  shows "toggleLightFast e ip tr =
     (if fst a1 = None then (None, snd a1)
      else if fst a2 = None then (None, snd a2)
      else if fst a3 = None then (None, snd a3)
      else (Some (Wrapped ''failed after 3 attempts'' (fst a3)), snd a3))"
  using assms
  by (simp add: toggleLightFast_def split: prod.split option.split)

theorem toggleLightFast_three_attempts_witness:
  "fst (toggleLightAttempt flaky_env ''10.0.0.1'' []) \<noteq> None \<and>
   fst (toggleLightAttempt flaky_env ''10.0.0.1'' [HttpGet ''10.0.0.1'', Sleep 100]) \<noteq> None \<and>
   toggleLightFast flaky_env ''10.0.0.1'' [] =
     (None, [HttpGet ''10.0.0.1'', Sleep 100, HttpGet ''10.0.0.1'', Sleep 100,
             HttpGet ''10.0.0.1'',
             HttpPut ''10.0.0.1'' \<lparr>patch_on = Some 1, patch_brightness = None,
                                     patch_temperature = None\<rparr>])"
  using toggleLightFast_three_attempts [OF refl refl refl, of flaky_env "''10.0.0.1''" "[]"]
  by (simp add: flaky_env_def toggleLightAttempt_def ok_response_def)

subsection \<open>Selection and focus\<close>

text \<open>
  C6. Key \<open>1\<close> (key \<open>2\<close>) with fewer than one (two) lights in \<open>lightsList\<close> returns the
  session as it was, selection mode included, and causes no effect; and under mode
  \<open>light1\<close> (\<open>light2\<close>) with fewer than one (two) lights the selected addresses are
  the empty list. \<open>lightsList\<close> has one name per registered light.
\<close>

theorem missing_ordinal_is_noop:
  "(length (lightsList m) < 1 \<longrightarrow> Update e ks (KeyMsg ''1'') m tr = (Ret (m, NoCmd), tr)) \<and>
   (length (lightsList m) < 2 \<longrightarrow> Update e ks (KeyMsg ''2'') m tr = (Ret (m, NoCmd), tr)) \<and>
   (selectedLightMode m = light1 \<and> length (lightsList m) < 1 \<longrightarrow>
      getSelectedLightIPs m ks = []) \<and>
   (selectedLightMode m = light2 \<and> length (lightsList m) < 2 \<longrightarrow>
      getSelectedLightIPs m ks = []) \<and>
   (range_order (Lights (loadConfig f)) ks0 \<longrightarrow>
      length (lightsList (initialModel f ks0)) = card (dom (Lights (loadConfig f))))"
  by (simp add: Update_def getSelectedLightIPs_def initialModel_def Let_def
        range_entries_length)

theorem missing_ordinal_is_noop_witness:
  "Update flaky_env [] (KeyMsg ''2'') one_light [] = (Ret (one_light, NoCmd), []) \<and>
   getSelectedLightIPs (one_light\<lparr>selectedLightMode := light2\<rparr>) [''Key Light''] = [] \<and>
   Update flaky_env [] (KeyMsg ''1'') (one_light\<lparr>lightsList := []\<rparr>) []
     = (Ret (one_light\<lparr>lightsList := []\<rparr>, NoCmd), []) \<and>
   getSelectedLightIPs (one_light\<lparr>lightsList := [], selectedLightMode := light1\<rparr>) [] = [] \<and>
   length (lightsList (initialModel (Document zero_document) [''Key Light''])) = 1"
proof -
  have ro: "range_order (Lights (loadConfig (Document zero_document))) [''Key Light'']"
    by (simp add: range_order_def loadConfig_def zero_document_def)
  show ?thesis
    using
      missing_ordinal_is_noop [of one_light flaky_env "[]" "[]"]
      missing_ordinal_is_noop [of "one_light\<lparr>selectedLightMode := light2\<rparr>" flaky_env
        "[''Key Light'']" "[]"]
      missing_ordinal_is_noop [of "one_light\<lparr>lightsList := []\<rparr>" flaky_env "[]" "[]"]
      missing_ordinal_is_noop [of "one_light\<lparr>lightsList := [], selectedLightMode := light1\<rparr>"
        flaky_env "[]" "[]"]
      missing_ordinal_is_noop [of one_light flaky_env "[]" "[]" "Document zero_document"
        "[''Key Light'']"]
      ro
    by (simp add: one_light_def loadConfig_def zero_document_def)
qed



lemma Update_left_brightness:
  assumes "key \<in> {''left'', ''h''}" and "focusedControl m = focusBrightness"
      and "3 \<le> brightnessValue m" and "brightnessValue m \<le> 100"
  shows "Update e ks (KeyMsg key) m tr
           = (Ret (m\<lparr>brightnessValue := clamp_to 3 100 (brightnessValue m - 5)\<rparr>, NoCmd), tr)"
proof -
  have "wrap64 (brightnessValue m - 5) = brightnessValue m - 5"
    using assms(3,4) by (simp add: wrap64_id)
  with assms show ?thesis
    by (elim insertE emptyE; simp add: Update_def clamp_to_def)
qed

lemma Update_right_brightness:
  assumes "key \<in> {''right'', ''l''}" and "focusedControl m = focusBrightness"
      and "3 \<le> brightnessValue m" and "brightnessValue m \<le> 100"
  shows "Update e ks (KeyMsg key) m tr
           = (Ret (m\<lparr>brightnessValue := clamp_to 3 100 (brightnessValue m + 5)\<rparr>, NoCmd), tr)"
proof -
  have "wrap64 (brightnessValue m + 5) = brightnessValue m + 5"
    using assms(3,4) by (simp add: wrap64_id)
  with assms show ?thesis
    by (elim insertE emptyE; simp add: Update_def clamp_to_def)
qed

lemma Update_left_temperature:
  assumes "key \<in> {''left'', ''h''}" and "focusedControl m = focusTemperature"
      and "2900 \<le> temperatureValue m" and "temperatureValue m \<le> 7000"
  shows "Update e ks (KeyMsg key) m tr
           = (Ret (m\<lparr>temperatureValue := clamp_to 2900 7000 (temperatureValue m - 200)\<rparr>,
                   NoCmd), tr)"
proof -
  have "wrap64 (temperatureValue m - 200) = temperatureValue m - 200"
    using assms(3,4) by (simp add: wrap64_id)
  with assms show ?thesis
    by (elim insertE emptyE; simp add: Update_def clamp_to_def)
qed

lemma Update_right_temperature:
  assumes "key \<in> {''right'', ''l''}" and "focusedControl m = focusTemperature"
      and "2900 \<le> temperatureValue m" and "temperatureValue m \<le> 7000"
  shows "Update e ks (KeyMsg key) m tr
           = (Ret (m\<lparr>temperatureValue := clamp_to 2900 7000 (temperatureValue m + 200)\<rparr>,
                   NoCmd), tr)"
proof -
  have "wrap64 (temperatureValue m + 200) = temperatureValue m + 200"
    using assms(3,4) by (simp add: wrap64_id)
  with assms show ?thesis
    by (elim insertE emptyE; simp add: Update_def clamp_to_def)
qed




subsection \<open>Stored defaults at start-up\<close>

text \<open>
  C10. A configuration file that is read and parsed is handed on by \<open>loadConfig\<close> as it
  is, and \<open>initialModel\<close> then replaces a stored \<open>lastBrightness\<close> of 0 by 50 and a stored
  \<open>lastTemperature\<close> of 0 by 4000, in the pending values and in the configuration it
  keeps.
\<close>

theorem stored_zero_starts_at_default:
  "loadConfig (Document c) = c \<and>
   (LastBrightness c = 0 \<longrightarrow>
      brightnessValue (initialModel (Document c) ks) = 50 \<and>
      LastBrightness (config (initialModel (Document c) ks)) = 50) \<and>
   (LastTemperature c = 0 \<longrightarrow>
      temperatureValue (initialModel (Document c) ks) = 4000 \<and>
      LastTemperature (config (initialModel (Document c) ks)) = 4000)"
  by (simp add: loadConfig_def initialModel_def Let_def)

theorem stored_zero_starts_at_default_witness:
  "LastBrightness zero_document = 0 \<and> LastTemperature zero_document = 0 \<and>
   loadConfig (Document zero_document) = zero_document \<and>
   brightnessValue (initialModel (Document zero_document) [''Key Light'']) = 50 \<and>
   temperatureValue (initialModel (Document zero_document) [''Key Light'']) = 4000"
  using stored_zero_starts_at_default [of zero_document "[''Key Light'']"]
  by (simp add: zero_document_def)

subsection \<open>Kelvin and the wire scale\<close>

lemma go_div_pos: "0 < a \<Longrightarrow> 0 < b \<Longrightarrow> go_div a b = Some (a div b)"
  by (simp add: go_div_def)

lemma wire_bounds:
  fixes K :: int
  assumes "2900 \<le> K" "K \<le> 7000"
  shows "142 \<le> 1000000 div K \<and> 1000000 div K \<le> 344"
proof -
  have "1000000 div K \<le> 1000000 div 2900"
    using assms by (intro zdiv_mono2) auto
  moreover have "1000000 div 7000 \<le> 1000000 div K"
    using assms by (intro zdiv_mono2) auto
  ultimately show ?thesis by simp
qed

lemma roundtrip_bounds:
  fixes K :: int
  assumes lo: "2900 \<le> K" and hi: "K \<le> 7000"
  defines "w \<equiv> 1000000 div K"
  defines "K' \<equiv> 1000000 div w"
  shows "K \<le> K' \<and> K' \<le> K + 48"
proof -
  have wb: "142 \<le> w" "w \<le> 344"
    using wire_bounds [OF lo hi] by (simp_all add: w_def)
  have Kpos: "0 < K" using lo by simp
  have wpos: "0 < w" using wb by simp
  have wK: "w * K \<le> 1000000"
  proof -
    have "1000000 = K * (1000000 div K) + 1000000 mod K" by simp
    moreover have "0 \<le> 1000000 mod K" using Kpos by simp
    ultimately have "K * w \<le> 1000000" unfolding w_def by linarith
    then show ?thesis by (simp add: mult.commute)
  qed
  have wK': "1000000 < (w + 1) * K"
  proof -
    have "1000000 = K * (1000000 div K) + 1000000 mod K" by simp
    moreover have "1000000 mod K < K" using Kpos by simp
    ultimately have "1000000 < K * w + K" unfolding w_def by linarith
    then show ?thesis by (simp add: algebra_simps)
  qed
  have K'w: "K' * w \<le> 1000000"
  proof -
    have "1000000 = w * (1000000 div w) + 1000000 mod w" by simp
    moreover have "0 \<le> 1000000 mod w" using wpos by simp
    ultimately have "w * K' \<le> 1000000" unfolding K'_def by linarith
    then show ?thesis by (simp add: mult.commute)
  qed
  have K'w': "1000000 < (K' + 1) * w"
  proof -
    have "1000000 = w * (1000000 div w) + 1000000 mod w" by simp
    moreover have "1000000 mod w < w" using wpos by simp
    ultimately have "1000000 < w * K' + w" unfolding K'_def by linarith
    then show ?thesis by (simp add: algebra_simps)
  qed
  have lower: "K \<le> K'"
  proof (rule ccontr)
    assume "\<not> K \<le> K'"
    then have "K' + 1 \<le> K" by simp
    then have "(K' + 1) * w \<le> K * w" using wpos by (intro mult_right_mono) auto
    with K'w' wK show False by (simp add: mult.commute)
  qed
  have upper: "K' \<le> K + 48"
  proof (cases "w = 142")
    case True
    then have "K' = 7042" by (simp add: K'_def)
    moreover have "6994 \<le> K" using wK' True by simp
    ultimately show ?thesis by simp
  next
    case False
    then have w143: "143 \<le> w" using wb by simp
    show ?thesis
    proof (rule ccontr)
      assume "\<not> K' \<le> K + 48"
      then have "K + 49 \<le> K'" by simp
      then have "(K + 49) * w \<le> K' * w" using wpos by (intro mult_right_mono) auto
      then have "K * w + 49 * w \<le> 1000000" using K'w by (simp add: algebra_simps)
      moreover have "1000000 < w * K + K" using wK' by (simp add: algebra_simps)
      ultimately have "49 * w < K" by (simp add: mult.commute)
      with w143 hi show False by simp
    qed
  qed
  from lower upper show ?thesis ..
qed

lemma setLight_temperature_trace:
  "go_div 1000000 K = Some w \<Longrightarrow>
   snd (setLight e ip None None (Some K) tr) =
     tr @ [HttpPut ip \<lparr>patch_on = None, patch_brightness = None, patch_temperature = Some w\<rparr>]"
  by (simp add: setLight_def Let_def split: sum.split)

text \<open>
  With the rounding the specification writes down, 7000 K goes to 143 and comes back as
  6993 K; the drift is not within 1 K under either reading of the division.
\<close>

lemma spec_roundtrip_7000:
  "spec_wire_of_kelvin 7000 = 143 \<and> spec_kelvin_of_wire 143 = 6993"
  by (simp add: spec_wire_of_kelvin_def spec_kelvin_of_wire_def round_def)

text \<open>
  C2 fails as stated: \<open>setLight\<close> sends 7000 K as 142, and \<open>int(1000000 / 142)\<close> reads
  that back as 7042 K.
\<close>

theorem kelvin_roundtrip_7000_drifts:
  "snd (setLight (steady_env (Inl TransportErr) (Inr ok_response)) ''10.0.0.1''
          None None (Some 7000) [])
     = [HttpPut ''10.0.0.1''
          \<lparr>patch_on = None, patch_brightness = None, patch_temperature = Some 142\<rparr>] \<and>
   go_div 1000000 142 = Some 7042 \<and>
   \<not> \<bar>7042 - 7000\<bar> \<le> (1::int)"
  by (simp add: setLight_def go_div_def steady_env_def ok_response_def)

text \<open>
  C2, as amended. Both conversions are the truncating division \<open>int(1000000 / x)\<close>. For
  every \<open>K\<close> from 2900 to 7000, \<open>setLight\<close> sends a wire value \<open>w\<close> that converts back
  to a Kelvin value \<open>K'\<close> with \<open>K \<le> K' \<le> K + 48\<close>.
\<close>

theorem kelvin_roundtrip_drift:
  assumes "2900 \<le> K" and "K \<le> 7000"
  shows "\<exists>w K'.
     snd (setLight e ip None None (Some K) tr) =
       tr @ [HttpPut ip \<lparr>patch_on = None, patch_brightness = None,
                          patch_temperature = Some w\<rparr>] \<and>
     go_div 1000000 w = Some K' \<and> K \<le> K' \<and> K' \<le> K + 48"
proof -
  have w: "go_div 1000000 K = Some (1000000 div K)"
    using assms by (simp add: go_div_pos)
  have "0 < 1000000 div K"
    using wire_bounds [OF assms] by simp
  then have K': "go_div 1000000 (1000000 div K) = Some (1000000 div (1000000 div K))"
    by (simp add: go_div_pos)
  show ?thesis
    using setLight_temperature_trace [OF w] K' roundtrip_bounds [OF assms] by blast
qed

theorem kelvin_roundtrip_drift_witness:
  "(2900::int) \<le> 6994 \<and> (6994::int) \<le> 7000 \<and>
   (\<exists>w K'.
      snd (setLight flaky_env ''10.0.0.1'' None None (Some 6994) []) =
        [] @ [HttpPut ''10.0.0.1'' \<lparr>patch_on = None, patch_brightness = None,
                                      patch_temperature = Some w\<rparr>] \<and>
      go_div 1000000 w = Some K' \<and> 6994 \<le> K' \<and> K' \<le> 6994 + 48) \<and>
   go_div 1000000 6994 = Some 142 \<and> go_div 1000000 142 = Some (6994 + 48)"
proof -
  have lo: "(2900::int) \<le> 6994" and hi: "(6994::int) \<le> 7000" by simp_all
  show ?thesis
    using kelvin_roundtrip_drift [OF lo hi, of flaky_env "''10.0.0.1''" "[]"]
    by (simp add: go_div_def)
qed

subsection \<open>Traces of the device calls\<close>

lemma puts_append: "puts (a @ b) = puts a @ puts b"
  by (simp add: puts_def List.map_filter_def)

lemma saves_append: "saves (a @ b) = saves a @ saves b"
  by (simp add: saves_def List.map_filter_def)

lemma puts_simps:
  "puts [] = []"
  "puts (HttpPut ip p # tr) = (ip, p) # puts tr"
  "puts (HttpGet ip # tr) = puts tr"
  "puts (Print r # tr) = puts tr"
  "puts (SaveConfig c # tr) = puts tr"
  "puts (Sleep n # tr) = puts tr"
  "puts (GoDiscoverLights # tr) = puts tr"
  by (simp_all add: puts_def)

lemma saves_simps:
  "saves [] = []"
  "saves (HttpPut ip p # tr) = saves tr"
  "saves (HttpGet ip # tr) = saves tr"
  "saves (Print r # tr) = saves tr"
  "saves (SaveConfig c # tr) = c # saves tr"
  "saves (Sleep n # tr) = saves tr"
  "saves (GoDiscoverLights # tr) = saves tr"
  by (simp_all add: saves_def)

lemma getLightState_decode:
  "getLightState e ip tr = (decode_reply (http_get e (length tr) ip), tr @ [HttpGet ip])"
  by (simp add: getLightState_def decode_reply_def split: sum.split body.split list.split)

lemma setLight_brightness:
  "setLight e ip None (Some b) None tr =
     (Ret (put_error (http_put e (length tr) ip (brightness_patch b))),
      tr @ [HttpPut ip (brightness_patch b)])"
  by (simp add: setLight_def put_error_def brightness_patch_def split: sum.split)

lemma setLight_temperature:
  "go_div 1000000 t = Some w \<Longrightarrow>
   setLight e ip None None (Some t) tr =
     (Ret (put_error (http_put e (length tr) ip (temperature_patch w))),
      tr @ [HttpPut ip (temperature_patch w)])"
  by (simp add: setLight_def put_error_def temperature_patch_def split: sum.split)

lemma bind_run_Ret [simp]: "bind_run (Ret a, tr) f = f a tr"
  by (simp add: bind_run_def)

lemma bright_set_each_trace:
  "\<exists>tr'. bright_set_each e b entries tr = (Ret (), tr') \<and>
         puts tr' = puts tr @ map (\<lambda>(name, ip). (ip, brightness_patch b)) entries \<and>
         saves tr' = saves tr"
proof (induction entries arbitrary: tr)
  case Nil
  then show ?case by simp
next
  case (Cons entry rest)
  obtain name ip where entry: "entry = (name, ip)" by (cases entry)
  let ?tr1 = "tr @ [HttpPut ip (brightness_patch b)]"
  let ?tr2 = "?tr1 @ [Print (case put_error (http_put e (length tr) ip (brightness_patch b)) of
                               Some _ \<Rightarrow> FailedToSet name
                             | None \<Rightarrow> BrightnessIs name b)]"
  from Cons.IH [of ?tr2] obtain tr' where
    "bright_set_each e b rest ?tr2 = (Ret (), tr')"
    "puts tr' = puts ?tr2 @ map (\<lambda>(name, ip). (ip, brightness_patch b)) rest"
    "saves tr' = saves ?tr2"
    by blast
  then show ?case
    by (simp add: entry setLight_brightness puts_append saves_append puts_simps saves_simps)
qed

lemma temp_set_each_trace:
  assumes "go_div 1000000 t = Some w"
  shows "\<exists>tr'. temp_set_each e t entries tr = (Ret (), tr') \<and>
         puts tr' = puts tr @ map (\<lambda>(name, ip). (ip, temperature_patch w)) entries \<and>
         saves tr' = saves tr"
proof (induction entries arbitrary: tr)
  case Nil
  then show ?case by simp
next
  case (Cons entry rest)
  obtain name ip where entry: "entry = (name, ip)" by (cases entry)
  let ?tr1 = "tr @ [HttpPut ip (temperature_patch w)]"
  let ?tr2 = "?tr1 @ [Print (case put_error (http_put e (length tr) ip (temperature_patch w)) of
                               Some _ \<Rightarrow> FailedToSet name
                             | None \<Rightarrow> TemperatureIs name t)]"
  from Cons.IH [of ?tr2] obtain tr' where
    "temp_set_each e t rest ?tr2 = (Ret (), tr')"
    "puts tr' = puts ?tr2 @ map (\<lambda>(name, ip). (ip, temperature_patch w)) rest"
    "saves tr' = saves ?tr2"
    by blast
  then show ?case
    by (simp add: entry setLight_temperature [OF assms] puts_append saves_append
          puts_simps saves_simps)
qed

subsection \<open>Persisting the last value\<close>

text \<open>
  The value branch of \<open>cliBrightness\<close> stores and saves the value whatever the writes
  returned.
\<close>

lemma cliBrightness_value_always_saves:
  assumes "3 \<le> length args" and "args ! 2 \<notin> {''+'', ''-'', ''=''}"
      and "sscan_int e (args ! 2) = Some b" and "3 \<le> b" and "b \<le> 100"
  shows "\<exists>tr'. cliBrightness e cfg args ks1 ks2 tr = (Ret (cfg\<lparr>LastBrightness := b\<rparr>), tr') \<and>
               saves tr' = saves tr @ [cfg\<lparr>LastBrightness := b\<rparr>]"
proof -
  obtain tr1 where
    "bright_set_each e b (range_entries (Lights cfg) ks1) tr = (Ret (), tr1)"
    "saves tr1 = saves tr"
    using bright_set_each_trace by blast
  with assms show ?thesis
    by (simp add: cliBrightness_def Let_def saveConfig_def saves_append saves_simps)
qed


lemma cliTemperature_value_always_saves:
  assumes "3 \<le> length args" and "args ! 2 \<notin> {''+'', ''-'', ''=''}"
      and "sscan_int e (args ! 2) = Some t" and "2900 \<le> t" and "t \<le> 7000"
  shows "\<exists>tr'. cliTemperature e cfg args ks1 ks2 tr = (Ret (cfg\<lparr>LastTemperature := t\<rparr>), tr') \<and>
               saves tr' = saves tr @ [cfg\<lparr>LastTemperature := t\<rparr>]"
proof -
  have "go_div 1000000 t = Some (1000000 div t)"
    using assms by (simp add: go_div_pos)
  then obtain tr1 where
    "temp_set_each e t (range_entries (Lights cfg) ks1) tr = (Ret (), tr1)"
    "saves tr1 = saves tr"
    using temp_set_each_trace by blast
  with assms show ?thesis
    by (simp add: cliTemperature_def Let_def saveConfig_def saves_append saves_simps)
qed

text \<open>
  The interactive path is the one that gates the save: \<open>brightness_each\<close> returns whether
  every write succeeded, and \<open>activateControl\<close> stores and saves only then.
\<close>

lemma brightness_each_result:
  "\<exists>tr'. brightness_each e b ips tr =
          (Ret (\<forall>i<length ips.
                  put_error (http_put e (length tr + i) (ips ! i) (brightness_patch b)) = None),
           tr') \<and>
         saves tr' = saves tr"
proof (induction ips arbitrary: tr)
  case Nil
  then show ?case by simp
next
  case (Cons ip ips)
  show ?case
  proof (cases "put_error (http_put e (length tr) ip (brightness_patch b))")
    case (Some err)
    then show ?thesis
      by (auto simp add: setLight_brightness saves_append saves_simps)
  next
    case None
    from Cons.IH [of "tr @ [HttpPut ip (brightness_patch b)]"] None show ?thesis
      by (simp add: setLight_brightness saves_append saves_simps All_less_Suc2)
  qed
qed

lemma activateControl_brightness_gate:
  assumes "focusedControl m = focusBrightness"
  shows "\<exists>m' tr'. activateControl e ks m tr = (Ret (m', NoCmd), tr') \<and>
     (if \<forall>i<length (getSelectedLightIPs m ks).
            put_error (http_put e (length tr + i) (getSelectedLightIPs m ks ! i)
                         (brightness_patch (brightnessValue m))) = None
      then config m' = (config m)\<lparr>LastBrightness := brightnessValue m\<rparr> \<and>
           saves tr' = saves tr @ [config m']
      else config m' = config m \<and> saves tr' = saves tr)"
proof -
  obtain tr1 where
    "brightness_each e (brightnessValue m) (getSelectedLightIPs m ks) tr =
       (Ret (\<forall>i<length (getSelectedLightIPs m ks).
               put_error (http_put e (length tr + i) (getSelectedLightIPs m ks ! i)
                            (brightness_patch (brightnessValue m))) = None), tr1)"
    "saves tr1 = saves tr"
    using brightness_each_result by blast
  with assms show ?thesis
    by (simp add: activateControl_def Let_def saveConfig_def saves_append saves_simps)
qed

text \<open>
  C1 at a failing input: \<open>keylight bright 70\<close> with three lights, of which the one at
  \<open>10.0.0.3\<close> answers the write with status 500. The run reports the failure, and still
  stores 70 over the persisted 50 and saves it.
\<close>

theorem cli_bright_saves_after_rejected_write:
  "range_order (Lights three_lights) [''Left'', ''Right'', ''Back''] \<and>
   LastBrightness three_lights = 50 \<and>
   cliBrightness rejecting_env three_lights [''keylight'', ''bright'', ''70'']
       [''Left'', ''Right'', ''Back''] [] []
     = (Ret (three_lights\<lparr>LastBrightness := 70\<rparr>),
        [HttpPut ''10.0.0.1'' (brightness_patch 70), Print (BrightnessIs ''Left'' 70),
         HttpPut ''10.0.0.2'' (brightness_patch 70), Print (BrightnessIs ''Right'' 70),
         HttpPut ''10.0.0.3'' (brightness_patch 70), Print (FailedToSet ''Back''),
         SaveConfig (three_lights\<lparr>LastBrightness := 70\<rparr>)])"
  by (auto simp add: range_order_def cliBrightness_def range_entries_def three_lights_def
        rejecting_env_def cli_scan_def setLight_def saveConfig_def brightness_patch_def
        ok_response_def Let_def)

subsection \<open>Ordinal addressing\<close>

text \<open>
  C9 at a failing input: the registry holds two lights, and both orders are orders in
  which a \<open>range\<close> over it may run. \<open>keylight 1\<close> toggles the light at \<open>10.0.0.1\<close>
  under one of them and the light at \<open>10.0.0.2\<close> under the other; the session fills
  \<open>lightsList\<close>, which keys \<open>1\<close> and \<open>2\<close> index, in the same way.
\<close>

theorem ordinal_follows_range_order:
  "range_order (Lights two_lights) [''Left'', ''Right''] \<and>
   range_order (Lights two_lights) [''Right'', ''Left''] \<and>
   find_target healthy_env two_lights ''1'' [''Left'', ''Right''] = (''10.0.0.1'', ''Left'') \<and>
   find_target healthy_env two_lights ''1'' [''Right'', ''Left''] = (''10.0.0.2'', ''Right'') \<and>
   cliSpecificLight healthy_env two_lights ''1'' [''keylight'', ''1''] [''Left'', ''Right''] []
     = (Ret (), [HttpGet ''10.0.0.1'',
                 HttpPut ''10.0.0.1'' \<lparr>patch_on = Some 0, patch_brightness = None,
                                         patch_temperature = None\<rparr>,
                 Print (Toggled ''Left'')]) \<and>
   cliSpecificLight healthy_env two_lights ''1'' [''keylight'', ''1''] [''Right'', ''Left''] []
     = (Ret (), [HttpGet ''10.0.0.2'',
                 HttpPut ''10.0.0.2'' \<lparr>patch_on = Some 0, patch_brightness = None,
                                         patch_temperature = None\<rparr>,
                 Print (Toggled ''Right'')]) \<and>
   lightsList (initialModel (Document two_lights) [''Left'', ''Right'']) = [''Left'', ''Right''] \<and>
   lightsList (initialModel (Document two_lights) [''Right'', ''Left'']) = [''Right'', ''Left'']"
  by (auto simp add: range_order_def find_target_def cliSpecificLight_def range_entries_def
        two_lights_def healthy_env_def cli_scan_def toggleLightFast_def
        toggleLightAttempt_def lit_40_def ok_response_def initialModel_def loadConfig_def
        Let_def)

subsection \<open>Equalize\<close>

lemma range_entries_map_index:
  "set ks \<subseteq> dom m \<Longrightarrow> range_entries m ks = map (\<lambda>k. (k, map_index m k)) ks"
  by (induction ks) (auto simp add: range_entries_def map_index_def split: option.splits)

lemma readable_simps:
  "readable [] = []"
  "readable (Inr s # rs) = s # readable rs"
  "readable (Inl err # rs) = readable rs"
  by (simp_all add: readable_def)

lemma sum_list_abs_nonneg: "0 \<le> sum_list (map (\<lambda>s. \<bar>f s :: int\<bar>) ss)"
  by (induction ss) simp_all

text \<open>
  The sums of the reading loops do not wrap when the absolute values that enter them add
  up to less than \<open>2 ^ 63\<close>, and neither does the counter below \<open>2 ^ 63\<close> lights.
\<close>

lemma bright_total_readings:
  assumes "\<bar>totalBright\<bar>
             + sum_list (map (\<lambda>s. \<bar>Brightness s\<bar>) (readable (readings e (length tr) entries)))
           < 2 ^ 63"
      and "0 \<le> count"
      and "count + int (length (readable (readings e (length tr) entries))) < 2 ^ 63"
  shows "bright_total e entries totalBright count tr =
     ((totalBright + sum_list (map Brightness (readable (readings e (length tr) entries))),
       count + int (length (readable (readings e (length tr) entries)))),
      tr @ map (\<lambda>(name, ip). HttpGet ip) entries)"
  using assms
proof (induction entries arbitrary: totalBright count tr)
  case Nil
  then show ?case by (simp add: readable_simps)
next
  case (Cons entry rest)
  obtain name ip where entry: "entry = (name, ip)" by (cases entry)
  let ?rest = "readable (readings e (Suc (length tr)) rest)"
  have nn: "0 \<le> sum_list (map (\<lambda>s. \<bar>Brightness s\<bar>) ?rest)"
    by (rule sum_list_abs_nonneg)
  show ?case
  proof (cases "decode_reply (http_get e (length tr) ip)")
    case (Inl err)
    with Cons.prems show ?thesis
      using Cons.IH [of totalBright "tr @ [HttpGet ip]" count]
      by (simp add: entry getLightState_decode readable_simps)
  next
    case (Inr s)
    with Cons.prems have
      b: "\<bar>totalBright\<bar> + (\<bar>Brightness s\<bar> + sum_list (map (\<lambda>s. \<bar>Brightness s\<bar>) ?rest)) < 2 ^ 63"
      and c: "count + (1 + int (length ?rest)) < 2 ^ 63"
      by (simp_all add: entry readable_simps)
    have w1: "wrap64 (totalBright + Brightness s) = totalBright + Brightness s"
      using b nn by (intro wrap64_id) arith+
    have w2: "wrap64 (count + 1) = count + 1"
      using c Cons.prems(2) by (intro wrap64_id) arith+
    have b': "\<bar>totalBright + Brightness s\<bar> + sum_list (map (\<lambda>s. \<bar>Brightness s\<bar>) ?rest) < 2 ^ 63"
      using b by arith
    have c': "count + 1 + int (length ?rest) < 2 ^ 63" and c0: "0 \<le> count + 1"
      using c Cons.prems(2) by arith+
    show ?thesis
      using Inr w1 w2
        Cons.IH [of "totalBright + Brightness s" "tr @ [HttpGet ip]" "count + 1"] b' c' c0
      by (simp add: entry getLightState_decode readable_simps)
  qed
qed

lemma puts_gets: "puts (map (\<lambda>(name, ip). HttpGet ip) entries) = []"
  by (induction entries) (auto simp add: puts_simps)

lemma go_div_Some: "b \<noteq> 0 \<Longrightarrow> \<exists>q. go_div a b = Some q"
  by (simp add: go_div_def)

lemma go_div_toward_zero:
  assumes "0 < b"
  shows "go_div a b = Some (toward_zero (real_of_int a / real_of_int b))"
proof (cases "0 \<le> a")
  case True
  then have "0 \<le> real_of_int a / real_of_int b" using assms by simp
  then have "toward_zero (real_of_int a / real_of_int b) = a div b"
    by (simp add: toward_zero_def floor_divide_of_int_eq)
  with True assms show ?thesis by (simp add: go_div_def)
next
  case False
  then have neg: "real_of_int a / real_of_int b < 0"
    using assms by (simp add: divide_neg_pos)
  have "\<lceil>real_of_int a / real_of_int b\<rceil> = - \<lfloor>real_of_int (- a) / real_of_int b\<rfloor>"
    by (simp add: ceiling_def)
  also have "\<dots> = - ((- a) div b)"
    by (simp only: floor_divide_of_int_eq)
  finally have "toward_zero (real_of_int a / real_of_int b) = - ((- a) div b)"
    using neg by (simp add: toward_zero_def)
  with False assms show ?thesis by (simp add: go_div_def)
qed

lemma equalize_brightness:
  assumes "3 \<le> length args" and "args ! 2 = ''=''"
      and "range_order (Lights cfg) ks2"
      and "ss = readable (readings e (length tr) (range_entries (Lights cfg) ks1))"
      and "vs = map Brightness ss"
      and "int (length ss) < 2 ^ 63"
      and "sum_list (map (\<lambda>s. \<bar>Brightness s\<bar>) ss) < 2 ^ 63"
  shows "(vs \<noteq> [] \<longrightarrow>
           (\<exists>tr'. cliBrightness e cfg args ks1 ks2 tr = (Ret cfg, tr') \<and>
                  puts tr' = puts tr @
                    map (\<lambda>name. (map_index (Lights cfg) name,
                                  brightness_patch (toward_zero (mean vs)))) ks2)) \<and>
         (vs = [] \<longrightarrow>
           (\<exists>tr'. cliBrightness e cfg args ks1 ks2 tr
                    = (Ret cfg, tr' @ [Print CouldNotReadAnyLights]) \<and>
                  puts (tr' @ [Print CouldNotReadAnyLights]) = puts tr))"
proof (intro conjI impI)
  let ?entries1 = "range_entries (Lights cfg) ks1"
  let ?tr1 = "tr @ map (\<lambda>(name, ip). HttpGet ip) ?entries1"
  have total: "bright_total e ?entries1 0 0 tr = ((sum_list vs, int (length vs)), ?tr1)"
    using assms(4,5,6,7) bright_total_readings [of 0 e tr ?entries1 0] by simp
  {
    assume "vs = []"
    then show "\<exists>tr'. cliBrightness e cfg args ks1 ks2 tr
                    = (Ret cfg, tr' @ [Print CouldNotReadAnyLights]) \<and>
                  puts (tr' @ [Print CouldNotReadAnyLights]) = puts tr"
      using assms(1,2) total
      by (simp add: cliBrightness_def Let_def puts_append puts_simps puts_gets)
  }
  {
    assume ne: "vs \<noteq> []"
    then have cnt: "0 < int (length vs)" by simp
    have avg: "go_div (sum_list vs) (int (length vs)) = Some (toward_zero (mean vs))"
      using go_div_toward_zero [OF cnt] by (simp add: mean_def)
    have ents: "range_entries (Lights cfg) ks2 = map (\<lambda>k. (k, map_index (Lights cfg) k)) ks2"
      using assms(3) by (simp add: range_order_def range_entries_map_index)
    obtain tr' where
      "bright_set_each e (toward_zero (mean vs)) (range_entries (Lights cfg) ks2)
         (?tr1 @ [Print (SettingAllLightsTo (toward_zero (mean vs)))]) = (Ret (), tr')"
      "puts tr' = puts (?tr1 @ [Print (SettingAllLightsTo (toward_zero (mean vs)))]) @
         map (\<lambda>(name, ip). (ip, brightness_patch (toward_zero (mean vs))))
           (range_entries (Lights cfg) ks2)"
      using bright_set_each_trace by blast
    then show "\<exists>tr'. cliBrightness e cfg args ks1 ks2 tr = (Ret cfg, tr') \<and>
                  puts tr' = puts tr @
                    map (\<lambda>name. (map_index (Lights cfg) name,
                                  brightness_patch (toward_zero (mean vs)))) ks2"
      using assms(1,2) total ne avg
      by (simp add: cliBrightness_def Let_def puts_append puts_simps puts_gets ents comp_def)
  }
qed

lemma temp_total_readings:
  assumes "\<forall>s \<in> set (readable (readings e (length tr) entries)). Temperature s \<noteq> 0"
      and "\<bar>totalTemp\<bar>
             + sum_list (map (\<lambda>s. \<bar>kelvin_read s\<bar>) (readable (readings e (length tr) entries)))
           < 2 ^ 63"
      and "0 \<le> count"
      and "count + int (length (readable (readings e (length tr) entries))) < 2 ^ 63"
  shows "temp_total e entries totalTemp count tr =
     (Ret (totalTemp + sum_list (map kelvin_read (readable (readings e (length tr) entries))),
           count + int (length (readable (readings e (length tr) entries)))),
      tr @ map (\<lambda>(name, ip). HttpGet ip) entries)"
  using assms
proof (induction entries arbitrary: totalTemp count tr)
  case Nil
  then show ?case by (simp add: readable_simps)
next
  case (Cons entry rest)
  obtain name ip where entry: "entry = (name, ip)" by (cases entry)
  let ?rest = "readable (readings e (Suc (length tr)) rest)"
  have nn: "0 \<le> sum_list (map (\<lambda>s. \<bar>kelvin_read s\<bar>) ?rest)"
    by (rule sum_list_abs_nonneg)
  show ?case
  proof (cases "decode_reply (http_get e (length tr) ip)")
    case (Inl err)
    with Cons.prems show ?thesis
      using Cons.IH [of "tr @ [HttpGet ip]" totalTemp count]
      by (simp add: entry getLightState_decode readable_simps)
  next
    case (Inr s)
    with Cons.prems have nz: "Temperature s \<noteq> 0"
      and rest: "\<forall>s \<in> set ?rest. Temperature s \<noteq> 0"
      and b: "\<bar>totalTemp\<bar> + (\<bar>kelvin_read s\<bar> + sum_list (map (\<lambda>s. \<bar>kelvin_read s\<bar>) ?rest))
                < 2 ^ 63"
      and c: "count + (1 + int (length ?rest)) < 2 ^ 63"
      by (simp_all add: entry readable_simps)
    from nz obtain k where k: "go_div 1000000 (Temperature s) = Some k"
      using go_div_Some by blast
    then have ks: "kelvin_read s = k" by (simp add: kelvin_read_def)
    have w1: "wrap64 (totalTemp + k) = totalTemp + k"
      using b nn ks by (intro wrap64_id) arith+
    have w2: "wrap64 (count + 1) = count + 1"
      using c Cons.prems(3) by (intro wrap64_id) arith+
    have b': "\<bar>totalTemp + k\<bar> + sum_list (map (\<lambda>s. \<bar>kelvin_read s\<bar>) ?rest) < 2 ^ 63"
      using b ks by arith
    have c': "count + 1 + int (length ?rest) < 2 ^ 63" and c0: "0 \<le> count + 1"
      using c Cons.prems(3) by arith+
    show ?thesis
      using Inr k ks w1 w2 rest b' c' c0
        Cons.IH [of "tr @ [HttpGet ip]" "totalTemp + k" "count + 1"]
      by (simp add: entry getLightState_decode readable_simps)
  qed
qed

lemma equalize_temperature:
  assumes "3 \<le> length args" and "args ! 2 = ''=''"
      and "range_order (Lights cfg) ks2"
      and "ss = readable (readings e (length tr) (range_entries (Lights cfg) ks1))"
      and "\<forall>s \<in> set ss. Temperature s \<noteq> 0"
      and "vs = map kelvin_read ss"
      and "int (length ss) < 2 ^ 63"
      and "sum_list (map (\<lambda>s. \<bar>kelvin_read s\<bar>) ss) < 2 ^ 63"
  shows "(vs \<noteq> [] \<and> toward_zero (mean vs) \<noteq> 0 \<longrightarrow>
           (\<exists>tr' w. cliTemperature e cfg args ks1 ks2 tr = (Ret cfg, tr') \<and>
                  go_div 1000000 (toward_zero (mean vs)) = Some w \<and>
                  puts tr' = puts tr @
                    map (\<lambda>name. (map_index (Lights cfg) name, temperature_patch w)) ks2)) \<and>
         (vs = [] \<longrightarrow>
           (\<exists>tr'. cliTemperature e cfg args ks1 ks2 tr
                    = (Ret cfg, tr' @ [Print CouldNotReadAnyLights]) \<and>
                  puts (tr' @ [Print CouldNotReadAnyLights]) = puts tr))"
proof (intro conjI impI)
  let ?entries1 = "range_entries (Lights cfg) ks1"
  let ?tr1 = "tr @ map (\<lambda>(name, ip). HttpGet ip) ?entries1"
  have total: "temp_total e ?entries1 0 0 tr = (Ret (sum_list vs, int (length vs)), ?tr1)"
    using assms(4,5,6,7,8) temp_total_readings [of e tr ?entries1 0 0] by simp
  {
    assume "vs = []"
    then show "\<exists>tr'. cliTemperature e cfg args ks1 ks2 tr
                    = (Ret cfg, tr' @ [Print CouldNotReadAnyLights]) \<and>
                  puts (tr' @ [Print CouldNotReadAnyLights]) = puts tr"
      using assms(1,2) total
      by (simp add: cliTemperature_def Let_def puts_append puts_simps puts_gets)
  }
  {
    assume "vs \<noteq> [] \<and> toward_zero (mean vs) \<noteq> 0"
    then have ne: "vs \<noteq> []" and nz: "toward_zero (mean vs) \<noteq> 0" by simp_all
    from ne have cnt: "0 < int (length vs)" by simp
    have avg: "go_div (sum_list vs) (int (length vs)) = Some (toward_zero (mean vs))"
      using go_div_toward_zero [OF cnt] by (simp add: mean_def)
    from nz obtain w where w: "go_div 1000000 (toward_zero (mean vs)) = Some w"
      using go_div_Some by blast
    have ents: "range_entries (Lights cfg) ks2 = map (\<lambda>k. (k, map_index (Lights cfg) k)) ks2"
      using assms(3) by (simp add: range_order_def range_entries_map_index)
    obtain tr' where
      "temp_set_each e (toward_zero (mean vs)) (range_entries (Lights cfg) ks2)
         (?tr1 @ [Print (SettingAllLightsTo (toward_zero (mean vs)))]) = (Ret (), tr')"
      "puts tr' = puts (?tr1 @ [Print (SettingAllLightsTo (toward_zero (mean vs)))]) @
         map (\<lambda>(name, ip). (ip, temperature_patch w)) (range_entries (Lights cfg) ks2)"
      using temp_set_each_trace [OF w] by blast
    then show "\<exists>tr' w. cliTemperature e cfg args ks1 ks2 tr = (Ret cfg, tr') \<and>
                  go_div 1000000 (toward_zero (mean vs)) = Some w \<and>
                  puts tr' = puts tr @
                    map (\<lambda>name. (map_index (Lights cfg) name, temperature_patch w)) ks2"
      using assms(1,2) total ne avg w
      by (simp add: cliTemperature_def Let_def puts_append puts_simps puts_gets ents comp_def)
  }
qed

text \<open>
  C3 fails as stated. Lights that report 40 and 61 are both set to 50, which is not
  their arithmetic mean; \<open>temp =\<close> on lights whose reply decodes to the wire
  temperature 0 panics in \<open>int(1000000 / state.Temperature)\<close> after the first read,
  without a write; and two lights that both report the brightness \<open>2 ^ 63 - 1\<close> are set
  to -1, because their sum wraps to -2.
\<close>

theorem equalize_truncates_and_may_panic:
  "puts (snd (cliBrightness uneven_env two_lights [''keylight'', ''bright'', ''='']
                [''Left'', ''Right''] [''Left'', ''Right''] []))
     = [(''10.0.0.1'', brightness_patch 50), (''10.0.0.2'', brightness_patch 50)] \<and>
   mean [40, 61] \<noteq> 50 \<and>
   cliTemperature no_temperature_env two_lights [''keylight'', ''temp'', ''='']
       [''Left'', ''Right''] [''Left'', ''Right''] []
     = (Panic, [HttpGet ''10.0.0.1'']) \<and>
   puts (snd (cliBrightness huge_env two_lights [''keylight'', ''bright'', ''='']
                [''Left'', ''Right''] [''Left'', ''Right''] []))
     = [(''10.0.0.1'', brightness_patch (- 1)), (''10.0.0.2'', brightness_patch (- 1))] \<and>
   toward_zero (mean [9223372036854775807, 9223372036854775807]) = 9223372036854775807"
  by (simp add: cliBrightness_def cliTemperature_def range_entries_def two_lights_def
        uneven_env_def no_temperature_env_def huge_env_def getLightState_def setLight_def
        go_div_def wrap64_def brightness_patch_def ok_response_def puts_def mean_def
        toward_zero_def bind_run_def Let_def)

text \<open>
  C3, as amended. \<open>ks1\<close> and \<open>ks2\<close> are the orders of the reading and of the writing
  loop, and \<open>ss\<close> are the states of the lights that could be read. If there is one,
  fewer than \<open>2 ^ 63\<close> were read and the absolute values of the brightness values read add
  up to less than \<open>2 ^ 63\<close> (so that the 64-bit sum does not wrap), \<open>bright =\<close> sends to the
  address of every registered light the arithmetic mean of the brightness values read,
  cut to an integer towards zero; unreadable lights do not enter the mean. \<open>temp =\<close>
  does the same with the Kelvin values \<open>int(1000000 / wire)\<close> of the lights read, under
  the same bound on them, and sends the mean converted to the wire scale, provided no
  light read reports the wire value 0 and the mean is not 0. If no light could be read,
  both print the failure and the run contains no write.
\<close>

theorem equalize_writes_truncated_mean:
  assumes "3 \<le> length args" and "args ! 2 = ''=''"
      and "range_order (Lights cfg) ks1" and "range_order (Lights cfg) ks2"
      and "ss = readable (readings e (length tr) (range_entries (Lights cfg) ks1))"
  shows
    "(ss \<noteq> [] \<and> int (length ss) < 2 ^ 63 \<and>
      sum_list (map (\<lambda>s. \<bar>Brightness s\<bar>) ss) < 2 ^ 63 \<longrightarrow>
        (\<exists>tr'. cliBrightness e cfg args ks1 ks2 tr = (Ret cfg, tr') \<and>
               puts tr' = puts tr @
                 map (\<lambda>name. (map_index (Lights cfg) name,
                               brightness_patch (toward_zero (mean (map Brightness ss))))) ks2)) \<and>
     (ss \<noteq> [] \<and> int (length ss) < 2 ^ 63 \<and>
      sum_list (map (\<lambda>s. \<bar>kelvin_read s\<bar>) ss) < 2 ^ 63 \<and>
      (\<forall>s \<in> set ss. Temperature s \<noteq> 0) \<and>
      toward_zero (mean (map kelvin_read ss)) \<noteq> 0 \<longrightarrow>
        (\<exists>tr' w. cliTemperature e cfg args ks1 ks2 tr = (Ret cfg, tr') \<and>
               go_div 1000000 (toward_zero (mean (map kelvin_read ss))) = Some w \<and>
               puts tr' = puts tr @
                 map (\<lambda>name. (map_index (Lights cfg) name, temperature_patch w)) ks2)) \<and>
     (ss = [] \<longrightarrow>
        (\<exists>tr'. cliBrightness e cfg args ks1 ks2 tr
                 = (Ret cfg, tr' @ [Print CouldNotReadAnyLights]) \<and>
               puts (tr' @ [Print CouldNotReadAnyLights]) = puts tr) \<and>
        (\<exists>tr'. cliTemperature e cfg args ks1 ks2 tr
                 = (Ret cfg, tr' @ [Print CouldNotReadAnyLights]) \<and>
               puts (tr' @ [Print CouldNotReadAnyLights]) = puts tr))"
proof (intro conjI impI)
  assume a: "ss \<noteq> [] \<and> int (length ss) < 2 ^ 63 \<and>
      sum_list (map (\<lambda>s. \<bar>Brightness s\<bar>) ss) < 2 ^ 63"
  then have l: "int (length ss) < 2 ^ 63"
    and b: "sum_list (map (\<lambda>s. \<bar>Brightness s\<bar>) ss) < 2 ^ 63" by simp_all
  show "\<exists>tr'. cliBrightness e cfg args ks1 ks2 tr = (Ret cfg, tr') \<and>
               puts tr' = puts tr @
                 map (\<lambda>name. (map_index (Lights cfg) name,
                               brightness_patch (toward_zero (mean (map Brightness ss))))) ks2"
    using equalize_brightness [OF assms(1,2,4,5) refl l b] a by simp
next
  assume a: "ss \<noteq> [] \<and> int (length ss) < 2 ^ 63 \<and>
      sum_list (map (\<lambda>s. \<bar>kelvin_read s\<bar>) ss) < 2 ^ 63 \<and>
      (\<forall>s \<in> set ss. Temperature s \<noteq> 0) \<and>
      toward_zero (mean (map kelvin_read ss)) \<noteq> 0"
  then have nz: "\<forall>s \<in> set ss. Temperature s \<noteq> 0"
    and l: "int (length ss) < 2 ^ 63"
    and b: "sum_list (map (\<lambda>s. \<bar>kelvin_read s\<bar>) ss) < 2 ^ 63" by simp_all
  show "\<exists>tr' w. cliTemperature e cfg args ks1 ks2 tr = (Ret cfg, tr') \<and>
               go_div 1000000 (toward_zero (mean (map kelvin_read ss))) = Some w \<and>
               puts tr' = puts tr @
                 map (\<lambda>name. (map_index (Lights cfg) name, temperature_patch w)) ks2"
    using equalize_temperature [OF assms(1,2,4,5) nz refl l b] a by simp
next
  assume e: "ss = []"
  then have l: "int (length ss) < 2 ^ 63"
    and b: "sum_list (map (\<lambda>s. \<bar>Brightness s\<bar>) ss) < 2 ^ 63"
    and k: "sum_list (map (\<lambda>s. \<bar>kelvin_read s\<bar>) ss) < 2 ^ 63" by simp_all
  show "\<exists>tr'. cliBrightness e cfg args ks1 ks2 tr
                 = (Ret cfg, tr' @ [Print CouldNotReadAnyLights]) \<and>
               puts (tr' @ [Print CouldNotReadAnyLights]) = puts tr"
    using equalize_brightness [OF assms(1,2,4,5) refl l b] e by simp
  from e have nz: "\<forall>s \<in> set ss. Temperature s \<noteq> 0" by simp
  show "\<exists>tr'. cliTemperature e cfg args ks1 ks2 tr
                 = (Ret cfg, tr' @ [Print CouldNotReadAnyLights]) \<and>
               puts (tr' @ [Print CouldNotReadAnyLights]) = puts tr"
    using equalize_temperature [OF assms(1,2,4,5) nz refl l k] e by simp
qed

theorem equalize_writes_truncated_mean_witness:
  "range_order (Lights three_lights) [''Left'', ''Right'', ''Back''] \<and>
   map Brightness (readable (readings mixed_env 0
       (range_entries (Lights three_lights) [''Left'', ''Right'', ''Back'']))) = [40, 60] \<and>
   sum_list (map (\<lambda>s. \<bar>Brightness s\<bar>) (readable (readings mixed_env 0
       (range_entries (Lights three_lights) [''Left'', ''Right'', ''Back''])))) < 2 ^ 63 \<and>
   puts (snd (cliBrightness mixed_env three_lights [''keylight'', ''bright'', ''='']
                [''Left'', ''Right'', ''Back''] [''Left'', ''Right'', ''Back''] []))
     = [(''10.0.0.1'', brightness_patch 50), (''10.0.0.2'', brightness_patch 50),
        (''10.0.0.3'', brightness_patch 50)] \<and>
   map kelvin_read (readable (readings mixed_env 0
       (range_entries (Lights three_lights) [''Left'', ''Right'', ''Back'']))) = [5000, 4000] \<and>
   sum_list (map (\<lambda>s. \<bar>kelvin_read s\<bar>) (readable (readings mixed_env 0
       (range_entries (Lights three_lights) [''Left'', ''Right'', ''Back''])))) < 2 ^ 63 \<and>
   puts (snd (cliTemperature mixed_env three_lights [''keylight'', ''temp'', ''='']
                [''Left'', ''Right'', ''Back''] [''Left'', ''Right'', ''Back''] []))
     = [(''10.0.0.1'', temperature_patch 222), (''10.0.0.2'', temperature_patch 222),
        (''10.0.0.3'', temperature_patch 222)] \<and>
   readable (readings (steady_env (Inl TransportErr) (Inr ok_response)) 0
       (range_entries (Lights three_lights) [''Left'', ''Right'', ''Back''])) = [] \<and>
   fst (cliBrightness (steady_env (Inl TransportErr) (Inr ok_response)) three_lights
          [''keylight'', ''bright'', ''=''] [''Left'', ''Right'', ''Back'']
          [''Left'', ''Right'', ''Back''] []) = Ret three_lights \<and>
   last (snd (cliBrightness (steady_env (Inl TransportErr) (Inr ok_response)) three_lights
          [''keylight'', ''bright'', ''=''] [''Left'', ''Right'', ''Back'']
          [''Left'', ''Right'', ''Back''] [])) = Print CouldNotReadAnyLights \<and>
   puts (snd (cliBrightness (steady_env (Inl TransportErr) (Inr ok_response)) three_lights
          [''keylight'', ''bright'', ''=''] [''Left'', ''Right'', ''Back'']
          [''Left'', ''Right'', ''Back''] [])) = []"
proof -
  have len: "3 \<le> length [''keylight'', ''bright'', ''='']"
    and act: "[''keylight'', ''bright'', ''=''] ! 2 = ''=''"
    and len': "3 \<le> length [''keylight'', ''temp'', ''='']"
    and act': "[''keylight'', ''temp'', ''=''] ! 2 = ''=''"
    by simp_all
  have ro: "range_order (Lights three_lights) [''Left'', ''Right'', ''Back'']"
    by (auto simp add: range_order_def three_lights_def)
  have rd: "readable (readings mixed_env 0
       (range_entries (Lights three_lights) [''Left'', ''Right'', ''Back'']))
     = [\<lparr>On = 1, Brightness = 40, Temperature = 200\<rparr>,
        \<lparr>On = 1, Brightness = 60, Temperature = 250\<rparr>]"
    by (simp add: range_entries_def three_lights_def mixed_env_def decode_reply_def
          readable_simps)
  have rd0: "readable (readings (steady_env (Inl TransportErr) (Inr ok_response)) 0
       (range_entries (Lights three_lights) [''Left'', ''Right'', ''Back''])) = []"
    by (simp add: range_entries_def three_lights_def steady_env_def decode_reply_def
          readable_simps)
  have kr: "kelvin_read \<lparr>On = 1, Brightness = 40, Temperature = 200\<rparr> = 5000"
    "kelvin_read \<lparr>On = 1, Brightness = 60, Temperature = 250\<rparr> = 4000"
    by (simp_all add: kelvin_read_def go_div_def)
  have m1: "toward_zero (mean [40, 60]) = 50" and m2: "toward_zero (mean [5000, 4000]) = 4500"
    by (simp_all add: toward_zero_def mean_def)
  have w: "go_div 1000000 4500 = Some 222" by (simp add: go_div_def)
  have mi: "map_index (Lights three_lights) ''Left'' = ''10.0.0.1''"
    "map_index (Lights three_lights) ''Right'' = ''10.0.0.2''"
    "map_index (Lights three_lights) ''Back'' = ''10.0.0.3''"
    by (simp_all add: map_index_def three_lights_def)
  note b = equalize_writes_truncated_mean [OF len act ro ro, of _ mixed_env "[]"]
  note t = equalize_writes_truncated_mean [OF len' act' ro ro, of _ mixed_env "[]"]
  note z = equalize_writes_truncated_mean [OF len act ro ro, of _
      "steady_env (Inl TransportErr) (Inr ok_response)" "[]"]
  show ?thesis
    using b [OF refl] t [OF refl] z [OF refl] ro rd rd0
    by (auto simp add: kr m1 m2 w mi puts_simps)
qed

subsection \<open>Values stay in range\<close>

lemma clamp_to_in_range: "lo \<le> hi \<Longrightarrow> lo \<le> clamp_to lo hi x \<and> clamp_to lo hi x \<le> hi"
  by (simp add: clamp_to_def)

text \<open>In range, the one-sided check of each step is the step clamped to the range.\<close>

lemma brightness_plus_step:
  assumes "3 \<le> b" and "b \<le> 100"
  shows "(if wrap64 (b + 5) > 100 then 100 else wrap64 (b + 5)) = clamp_to 3 100 (b + 5)"
proof -
  have "wrap64 (b + 5) = b + 5" using assms by (simp add: wrap64_id)
  with assms show ?thesis by (simp add: clamp_to_def)
qed

lemma brightness_minus_step:
  assumes "3 \<le> b" and "b \<le> 100"
  shows "(if wrap64 (b - 5) < 3 then 3 else wrap64 (b - 5)) = clamp_to 3 100 (b - 5)"
proof -
  have "wrap64 (b - 5) = b - 5" using assms by (simp add: wrap64_id)
  with assms show ?thesis by (simp add: clamp_to_def)
qed

lemma temperature_plus_step:
  assumes "2900 \<le> k" and "k \<le> 7000"
  shows "(if wrap64 (k + 200) > 7000 then 7000 else wrap64 (k + 200))
           = clamp_to 2900 7000 (k + 200)"
proof -
  have "wrap64 (k + 200) = k + 200" using assms by (simp add: wrap64_id)
  with assms show ?thesis by (simp add: clamp_to_def)
qed

lemma temperature_minus_step:
  assumes "2900 \<le> k" and "k \<le> 7000"
  shows "(if wrap64 (k - 200) < 2900 then 2900 else wrap64 (k - 200))
           = clamp_to 2900 7000 (k - 200)"
proof -
  have "wrap64 (k - 200) = k - 200" using assms by (simp add: wrap64_id)
  with assms show ?thesis by (simp add: clamp_to_def)
qed

lemma kelvin_of_device_wire:
  fixes T :: int
  assumes "143 \<le> T" and "T \<le> 344"
  shows "\<exists>k. go_div 1000000 T = Some k \<and> 2906 \<le> k \<and> k \<le> 6993"
proof -
  have "1000000 div T \<le> 1000000 div 143"
    using assms by (intro zdiv_mono2) auto
  moreover have "1000000 div 344 \<le> 1000000 div T"
    using assms by (intro zdiv_mono2) auto
  ultimately show ?thesis
    using assms by (simp add: go_div_pos)
qed

lemma kelvin_read_of_device_wire:
  assumes "143 \<le> Temperature s" and "Temperature s \<le> 344"
  shows "go_div 1000000 (Temperature s) = Some (kelvin_read s)"
    and "2906 \<le> kelvin_read s" and "kelvin_read s \<le> 6993"
  using kelvin_of_device_wire [OF assms] by (auto simp add: kelvin_read_def)

lemma setLight_kelvin:
  assumes "2900 \<le> k" and "k \<le> 7000"
  shows "setLight e ip None None (Some k) tr =
           (Ret (put_error (http_put e (length tr) ip (temperature_patch (1000000 div k)))),
            tr @ [HttpPut ip (temperature_patch (1000000 div k))])"
proof -
  have w: "go_div 1000000 k = Some (1000000 div k)"
    using assms by (simp add: go_div_pos)
  show ?thesis by (rule setLight_temperature [OF w])
qed

lemma step_writes_Suc:
  "step_writes e f n ((name, ip) # rest) =
     (case decode_reply (http_get e n ip) of
        Inl err \<Rightarrow> step_writes e f (Suc (Suc n)) rest
      | Inr s \<Rightarrow> (ip, f s) # step_writes e f (Suc (Suc (Suc n))) rest)"
  by (simp add: numeral_3_eq_3 split: sum.split)

lemma bright_plus_each_writes:
  assumes "reports_in_range e"
  shows "\<exists>tr'. bright_plus_each e entries tr = (Ret (), tr') \<and>
           puts tr' = puts tr @
             step_writes e (\<lambda>s. brightness_patch (clamp_to 3 100 (Brightness s + 5)))
               (length tr) entries"
proof (induction entries arbitrary: tr)
  case Nil
  then show ?case by simp
next
  case (Cons entry rest)
  obtain name ip where entry: "entry = (name, ip)" by (cases entry)
  show ?case
  proof (cases "decode_reply (http_get e (length tr) ip)")
    case (Inl err)
    from Cons.IH [of "tr @ [HttpGet ip, Print (FailedToGetState name)]"] Inl show ?thesis
      by (simp add: entry getLightState_decode step_writes_Suc puts_append puts_simps
            del: step_writes.simps)
  next
    case (Inr s)
    then have "3 \<le> Brightness s" "Brightness s \<le> 100"
      using assms by (auto simp add: reports_in_range_def)
    then have step: "(if wrap64 (Brightness s + 5) > 100 then 100 else wrap64 (Brightness s + 5))
                      = clamp_to 3 100 (Brightness s + 5)"
      by (rule brightness_plus_step)
    obtain r where r: "(case put_error (http_put e (Suc (length tr)) ip
                           (brightness_patch (clamp_to 3 100 (Brightness s + 5)))) of
                          Some _ \<Rightarrow> FailedToAdjust name
                        | None \<Rightarrow> BrightnessIs name (clamp_to 3 100 (Brightness s + 5))) = r"
      by simp
    from Cons.IH [of "tr @ [HttpGet ip,
        HttpPut ip (brightness_patch (clamp_to 3 100 (Brightness s + 5))), Print r]"]
      Inr r show ?thesis
      by (simp add: entry getLightState_decode setLight_brightness Let_def step
            step_writes_Suc puts_append puts_simps del: step_writes.simps)
  qed
qed

lemma bright_minus_each_writes:
  assumes "reports_in_range e"
  shows "\<exists>tr'. bright_minus_each e entries tr = (Ret (), tr') \<and>
           puts tr' = puts tr @
             step_writes e (\<lambda>s. brightness_patch (clamp_to 3 100 (Brightness s - 5)))
               (length tr) entries"
proof (induction entries arbitrary: tr)
  case Nil
  then show ?case by simp
next
  case (Cons entry rest)
  obtain name ip where entry: "entry = (name, ip)" by (cases entry)
  show ?case
  proof (cases "decode_reply (http_get e (length tr) ip)")
    case (Inl err)
    from Cons.IH [of "tr @ [HttpGet ip, Print (FailedToGetState name)]"] Inl show ?thesis
      by (simp add: entry getLightState_decode step_writes_Suc puts_append puts_simps
            del: step_writes.simps)
  next
    case (Inr s)
    then have "3 \<le> Brightness s" "Brightness s \<le> 100"
      using assms by (auto simp add: reports_in_range_def)
    then have step: "(if wrap64 (Brightness s - 5) < 3 then 3 else wrap64 (Brightness s - 5))
                      = clamp_to 3 100 (Brightness s - 5)"
      by (rule brightness_minus_step)
    obtain r where r: "(case put_error (http_put e (Suc (length tr)) ip
                           (brightness_patch (clamp_to 3 100 (Brightness s - 5)))) of
                          Some _ \<Rightarrow> FailedToAdjust name
                        | None \<Rightarrow> BrightnessIs name (clamp_to 3 100 (Brightness s - 5))) = r"
      by simp
    from Cons.IH [of "tr @ [HttpGet ip,
        HttpPut ip (brightness_patch (clamp_to 3 100 (Brightness s - 5))), Print r]"]
      Inr r show ?thesis
      by (simp add: entry getLightState_decode setLight_brightness Let_def step
            step_writes_Suc puts_append puts_simps del: step_writes.simps)
  qed
qed

lemma temp_plus_each_writes:
  assumes "reports_in_range e"
  shows "\<exists>tr'. temp_plus_each e entries tr = (Ret (), tr') \<and>
           puts tr' = puts tr @
             step_writes e
               (\<lambda>s. temperature_patch (1000000 div clamp_to 2900 7000 (kelvin_read s + 200)))
               (length tr) entries"
proof (induction entries arbitrary: tr)
  case Nil
  then show ?case by simp
next
  case (Cons entry rest)
  obtain name ip where entry: "entry = (name, ip)" by (cases entry)
  show ?case
  proof (cases "decode_reply (http_get e (length tr) ip)")
    case (Inl err)
    from Cons.IH [of "tr @ [HttpGet ip, Print (FailedToGetState name)]"] Inl show ?thesis
      by (simp add: entry getLightState_decode step_writes_Suc puts_append puts_simps
            del: step_writes.simps)
  next
    case (Inr s)
    then have "143 \<le> Temperature s" "Temperature s \<le> 344"
      using assms by (auto simp add: reports_in_range_def)
    note k = kelvin_read_of_device_wire [OF this]
    let ?new = "clamp_to 2900 7000 (kelvin_read s + 200)"
    have step: "(if wrap64 (kelvin_read s + 200) > 7000 then 7000
                 else wrap64 (kelvin_read s + 200)) = ?new"
      using k(2,3) by (intro temperature_plus_step) simp_all
    have new: "2900 \<le> ?new" "?new \<le> 7000"
      using clamp_to_in_range [of 2900 7000] by simp_all
    obtain r where r: "(case put_error (http_put e (Suc (length tr)) ip
                           (temperature_patch (1000000 div ?new))) of
                          Some _ \<Rightarrow> FailedToAdjust name
                        | None \<Rightarrow> TemperatureIs name ?new) = r"
      by simp
    from Cons.IH [of "tr @ [HttpGet ip,
        HttpPut ip (temperature_patch (1000000 div ?new)), Print r]"]
      Inr r k(1) show ?thesis
      by (simp add: entry getLightState_decode setLight_kelvin [OF new] Let_def step
            step_writes_Suc puts_append puts_simps del: step_writes.simps)
  qed
qed

lemma temp_minus_each_writes:
  assumes "reports_in_range e"
  shows "\<exists>tr'. temp_minus_each e entries tr = (Ret (), tr') \<and>
           puts tr' = puts tr @
             step_writes e
               (\<lambda>s. temperature_patch (1000000 div clamp_to 2900 7000 (kelvin_read s - 200)))
               (length tr) entries"
proof (induction entries arbitrary: tr)
  case Nil
  then show ?case by simp
next
  case (Cons entry rest)
  obtain name ip where entry: "entry = (name, ip)" by (cases entry)
  show ?case
  proof (cases "decode_reply (http_get e (length tr) ip)")
    case (Inl err)
    from Cons.IH [of "tr @ [HttpGet ip, Print (FailedToGetState name)]"] Inl show ?thesis
      by (simp add: entry getLightState_decode step_writes_Suc puts_append puts_simps
            del: step_writes.simps)
  next
    case (Inr s)
    then have "143 \<le> Temperature s" "Temperature s \<le> 344"
      using assms by (auto simp add: reports_in_range_def)
    note k = kelvin_read_of_device_wire [OF this]
    let ?new = "clamp_to 2900 7000 (kelvin_read s - 200)"
    have step: "(if wrap64 (kelvin_read s - 200) < 2900 then 2900
                 else wrap64 (kelvin_read s - 200)) = ?new"
      using k(2,3) by (intro temperature_minus_step) simp_all
    have new: "2900 \<le> ?new" "?new \<le> 7000"
      using clamp_to_in_range [of 2900 7000] by simp_all
    obtain r where r: "(case put_error (http_put e (Suc (length tr)) ip
                           (temperature_patch (1000000 div ?new))) of
                          Some _ \<Rightarrow> FailedToAdjust name
                        | None \<Rightarrow> TemperatureIs name ?new) = r"
      by simp
    from Cons.IH [of "tr @ [HttpGet ip,
        HttpPut ip (temperature_patch (1000000 div ?new)), Print r]"]
      Inr r k(1) show ?thesis
      by (simp add: entry getLightState_decode setLight_kelvin [OF new] Let_def step
            step_writes_Suc puts_append puts_simps del: step_writes.simps)
  qed
qed

lemma readings_in_range:
  assumes "reports_in_range e"
  shows "\<forall>s \<in> set (readable (readings e n entries)).
           3 \<le> Brightness s \<and> Brightness s \<le> 100 \<and>
           143 \<le> Temperature s \<and> Temperature s \<le> 344"
proof (induction entries arbitrary: n)
  case Nil
  then show ?case by (simp add: readable_simps)
next
  case (Cons entry rest)
  obtain name ip where entry: "entry = (name, ip)" by (cases entry)
  show ?case
  proof (cases "decode_reply (http_get e n ip)")
    case (Inl err)
    then show ?thesis using Cons.IH [of "Suc n"] by (simp add: entry readable_simps)
  next
    case (Inr s)
    then have "3 \<le> Brightness s \<and> Brightness s \<le> 100 \<and>
               143 \<le> Temperature s \<and> Temperature s \<le> 344"
      using assms by (auto simp add: reports_in_range_def)
    then show ?thesis using Inr Cons.IH [of "Suc n"] by (simp add: entry readable_simps)
  qed
qed

lemma sum_list_between:
  fixes vs :: "int list"
  assumes "\<forall>v \<in> set vs. lo \<le> v \<and> v \<le> hi"
  shows "lo * int (length vs) \<le> sum_list vs \<and> sum_list vs \<le> hi * int (length vs)"
  using assms by (induction vs) (auto simp add: algebra_simps)

lemma average_between:
  fixes vs :: "int list"
  assumes "vs \<noteq> []" and "\<forall>v \<in> set vs. lo \<le> v \<and> v \<le> hi" and "0 < lo"
  shows "\<exists>avg. go_div (sum_list vs) (int (length vs)) = Some avg \<and> lo \<le> avg \<and> avg \<le> hi"
proof -
  let ?n = "int (length vs)"
  have n: "0 < ?n" using assms(1) by simp
  have b: "lo * ?n \<le> sum_list vs" "sum_list vs \<le> hi * ?n"
    using sum_list_between [OF assms(2)] by simp_all
  have "0 < lo * ?n" using n assms(3) by simp
  then have pos: "0 < sum_list vs" using b(1) by linarith
  have "(lo * ?n) div ?n \<le> sum_list vs div ?n"
    using b(1) n by (intro zdiv_mono1) auto
  then have lo: "lo \<le> sum_list vs div ?n" using n by simp
  have "sum_list vs div ?n \<le> (hi * ?n) div ?n"
    using b(2) n by (intro zdiv_mono1) auto
  then have hi: "sum_list vs div ?n \<le> hi" using n by simp
  show ?thesis using pos n lo hi by (simp add: go_div_pos)
qed

lemma mean_between:
  fixes vs :: "int list"
  assumes "vs \<noteq> []" and "\<forall>v \<in> set vs. lo \<le> v \<and> v \<le> hi" and "0 < lo"
  shows "lo \<le> toward_zero (mean vs) \<and> toward_zero (mean vs) \<le> hi"
proof -
  from average_between [OF assms] obtain avg where
    avg: "go_div (sum_list vs) (int (length vs)) = Some avg" "lo \<le> avg" "avg \<le> hi"
    by blast
  have "0 < int (length vs)" using assms(1) by simp
  from go_div_toward_zero [OF this, of "sum_list vs"] avg(1)
  have "avg = toward_zero (mean vs)" by (simp add: mean_def)
  with avg(2,3) show ?thesis by simp
qed

lemma sum_list_abs_le:
  assumes "\<forall>s \<in> set ss. 0 \<le> f s \<and> f s \<le> (c :: int)"
  shows "sum_list (map (\<lambda>s. \<bar>f s\<bar>) ss) \<le> c * int (length ss)"
  using assms by (induction ss) (auto simp add: algebra_simps)

lemma equalize_brightness_in_range:
  assumes "reports_in_range e" and "3 \<le> length args" and "args ! 2 = ''=''"
      and "range_order (Lights cfg) ks2"
      and "ss = readable (readings e (length tr) (range_entries (Lights cfg) ks1))"
      and "ss \<noteq> []" and "7000 * int (length ss) < 2 ^ 63"
  shows "\<exists>avg tr'. cliBrightness e cfg args ks1 ks2 tr = (Ret cfg, tr') \<and>
           avg = toward_zero (mean (map Brightness ss)) \<and> 3 \<le> avg \<and> avg \<le> 100 \<and>
           puts tr' = puts tr @
             map (\<lambda>name. (map_index (Lights cfg) name, brightness_patch avg)) ks2"
proof -
  have rng: "\<forall>s \<in> set ss. 3 \<le> Brightness s \<and> Brightness s \<le> 100"
    using readings_in_range [OF assms(1)] assms(5) by blast
  then have "sum_list (map (\<lambda>s. \<bar>Brightness s\<bar>) ss) \<le> 100 * int (length ss)"
    by (intro sum_list_abs_le) auto
  with assms(7) have b: "sum_list (map (\<lambda>s. \<bar>Brightness s\<bar>) ss) < 2 ^ 63"
    and l: "int (length ss) < 2 ^ 63" by linarith+
  have "\<forall>v \<in> set (map Brightness ss). 3 \<le> v \<and> v \<le> 100" using rng by simp
  from mean_between [OF _ this] assms(6)
  have m: "3 \<le> toward_zero (mean (map Brightness ss))"
    "toward_zero (mean (map Brightness ss)) \<le> 100" by simp_all
  from equalize_brightness [OF assms(2,3,4,5) refl l b] assms(6) m show ?thesis by simp
qed

lemma equalize_temperature_in_range:
  assumes "reports_in_range e" and "3 \<le> length args" and "args ! 2 = ''=''"
      and "range_order (Lights cfg) ks2"
      and "ss = readable (readings e (length tr) (range_entries (Lights cfg) ks1))"
      and "ss \<noteq> []" and "7000 * int (length ss) < 2 ^ 63"
  shows "\<exists>avg tr'. cliTemperature e cfg args ks1 ks2 tr = (Ret cfg, tr') \<and>
           avg = toward_zero (mean (map kelvin_read ss)) \<and> 2900 \<le> avg \<and> avg \<le> 7000 \<and>
           puts tr' = puts tr @
             map (\<lambda>name. (map_index (Lights cfg) name,
                           temperature_patch (1000000 div avg))) ks2"
proof -
  have rng: "\<forall>s \<in> set ss. 143 \<le> Temperature s \<and> Temperature s \<le> 344"
    using readings_in_range [OF assms(1)] assms(5) by blast
  then have nz: "\<forall>s \<in> set ss. Temperature s \<noteq> 0" by auto
  have krng: "\<forall>s \<in> set ss. 2906 \<le> kelvin_read s \<and> kelvin_read s \<le> 6993"
    using rng kelvin_read_of_device_wire(2,3) by blast
  then have "sum_list (map (\<lambda>s. \<bar>kelvin_read s\<bar>) ss) \<le> 6993 * int (length ss)"
    by (intro sum_list_abs_le) auto
  with assms(7) have b: "sum_list (map (\<lambda>s. \<bar>kelvin_read s\<bar>) ss) < 2 ^ 63"
    and l: "int (length ss) < 2 ^ 63" by linarith+
  have "\<forall>v \<in> set (map kelvin_read ss). 2906 \<le> v \<and> v \<le> 6993" using krng by simp
  from mean_between [OF _ this] assms(6)
  have m: "2906 \<le> toward_zero (mean (map kelvin_read ss))"
    "toward_zero (mean (map kelvin_read ss)) \<le> 6993" by simp_all
  then have w: "go_div 1000000 (toward_zero (mean (map kelvin_read ss)))
                  = Some (1000000 div toward_zero (mean (map kelvin_read ss)))"
    by (simp add: go_div_pos)
  from m have nz': "toward_zero (mean (map kelvin_read ss)) \<noteq> 0" by simp
  from equalize_temperature [OF assms(2,3,4,5) nz refl l b] assms(6) nz' w m
  show ?thesis by auto
qed

text \<open>The commands on a single light, once the light is found.\<close>

lemma cliSpecificLight_bright:
  assumes "find_target e cfg lightIdentifier ks = (targetIP, targetName)"
      and "targetIP \<noteq> ''''" and "3 \<le> length args" and "args ! 2 = ''bright''"
  shows "cliSpecificLight e cfg lightIdentifier args ks tr
           = specific_bright e targetIP targetName args tr"
  using assms by (simp add: cliSpecificLight_def)

lemma cliSpecificLight_temp:
  assumes "find_target e cfg lightIdentifier ks = (targetIP, targetName)"
      and "targetIP \<noteq> ''''" and "3 \<le> length args" and "args ! 2 = ''temp''"
  shows "cliSpecificLight e cfg lightIdentifier args ks tr
           = specific_temp e targetIP targetName args tr"
  using assms by (simp add: cliSpecificLight_def)

lemma specific_bright_steps:
  assumes "decode_reply (http_get e (length tr) targetIP) = Inr s"
      and "3 \<le> Brightness s" and "Brightness s \<le> 100" and "4 \<le> length args"
  shows "args ! 3 = ''+'' \<Longrightarrow>
           puts (snd (specific_bright e targetIP targetName args tr))
             = puts tr @ [(targetIP, brightness_patch (clamp_to 3 100 (Brightness s + 5)))]"
    and "args ! 3 = ''-'' \<Longrightarrow>
           puts (snd (specific_bright e targetIP targetName args tr))
             = puts tr @ [(targetIP, brightness_patch (clamp_to 3 100 (Brightness s - 5)))]"
  using assms brightness_plus_step [OF assms(2,3)] brightness_minus_step [OF assms(2,3)]
  by (simp_all add: specific_bright_def Let_def getLightState_decode setLight_brightness
        puts_append puts_simps)

lemma specific_temp_steps:
  assumes "decode_reply (http_get e (length tr) targetIP) = Inr s"
      and "143 \<le> Temperature s" and "Temperature s \<le> 344" and "4 \<le> length args"
  shows "args ! 3 = ''+'' \<Longrightarrow>
           puts (snd (specific_temp e targetIP targetName args tr))
             = puts tr @ [(targetIP,
                 temperature_patch (1000000 div clamp_to 2900 7000 (kelvin_read s + 200)))]"
    and "args ! 3 = ''-'' \<Longrightarrow>
           puts (snd (specific_temp e targetIP targetName args tr))
             = puts tr @ [(targetIP,
                 temperature_patch (1000000 div clamp_to 2900 7000 (kelvin_read s - 200)))]"
proof -
  note k = kelvin_read_of_device_wire [OF assms(2,3)]
  have up: "(if wrap64 (kelvin_read s + 200) > 7000 then 7000
             else wrap64 (kelvin_read s + 200)) = clamp_to 2900 7000 (kelvin_read s + 200)"
    using k(2,3) by (intro temperature_plus_step) simp_all
  have down: "(if wrap64 (kelvin_read s - 200) < 2900 then 2900
               else wrap64 (kelvin_read s - 200)) = clamp_to 2900 7000 (kelvin_read s - 200)"
    using k(2,3) by (intro temperature_minus_step) simp_all
  have new: "2900 \<le> clamp_to 2900 7000 x" "clamp_to 2900 7000 x \<le> 7000" for x
    using clamp_to_in_range [of 2900 7000 x] by simp_all
  show "args ! 3 = ''+'' \<Longrightarrow>
           puts (snd (specific_temp e targetIP targetName args tr))
             = puts tr @ [(targetIP,
                 temperature_patch (1000000 div clamp_to 2900 7000 (kelvin_read s + 200)))]"
    using assms(1,4) k(1) up
    by (simp add: specific_temp_def Let_def getLightState_decode setLight_kelvin [OF new]
          puts_append puts_simps)
  show "args ! 3 = ''-'' \<Longrightarrow>
           puts (snd (specific_temp e targetIP targetName args tr))
             = puts tr @ [(targetIP,
                 temperature_patch (1000000 div clamp_to 2900 7000 (kelvin_read s - 200)))]"
    using assms(1,4) k(1) down
    by (simp add: specific_temp_def Let_def getLightState_decode setLight_kelvin [OF new]
          puts_append puts_simps)
qed

text \<open>The session: every input returns, and pending values in range stay in range.\<close>

lemma setLight_power_returns:
  "\<exists>err tr'. setLight e ip (Some st) None None tr = (Ret err, tr')"
  by (auto simp add: setLight_def Let_def split: sum.split)

lemma toggleLight_returns: "\<exists>err tr'. toggleLight e ip tr = (Ret err, tr')"
  using setLight_power_returns [of e ip _ "tr @ [HttpGet ip]"]
  by (auto simp add: toggleLight_def getLightState_decode split: sum.split)

lemma toggle_each_returns:
  "\<exists>r tr'. toggle_each e ips errorCount successCount tr = (Ret r, tr')"
proof (induction ips arbitrary: errorCount successCount tr)
  case Nil
  then show ?case by simp
next
  case (Cons ip ips)
  from toggleLight_returns obtain err tr1 where
    "toggleLight e ip tr = (Ret err, tr1)" by blast
  then show ?case
    using Cons.IH [of _ _ tr1] by (cases err) auto
qed

lemma power_each_returns: "\<exists>tr'. power_each e st ips tr = (Ret (), tr')"
proof (induction ips arbitrary: tr)
  case Nil
  then show ?case by simp
next
  case (Cons ip ips)
  from setLight_power_returns obtain err tr1 where
    "setLight e ip (Some st) None None tr = (Ret err, tr1)" by blast
  then show ?case
    using Cons.IH [of tr1] by auto
qed

lemma brightness_each_returns: "\<exists>ok tr'. brightness_each e b ips tr = (Ret ok, tr')"
  using brightness_each_result [of e b ips tr] by blast

lemma temperature_each_returns:
  assumes "2900 \<le> t" and "t \<le> 7000"
  shows "\<exists>ok tr'. temperature_each e t ips tr = (Ret ok, tr')"
proof (induction ips arbitrary: tr)
  case Nil
  then show ?case by (intro exI [of _ True]) simp
next
  case (Cons ip ips)
  show ?case
  proof (cases "put_error (http_put e (length tr) ip (temperature_patch (1000000 div t)))")
    case None
    with Cons.IH [of "tr @ [HttpPut ip (temperature_patch (1000000 div t))]"] show ?thesis
      by (simp add: setLight_kelvin [OF assms])
  next
    case (Some err)
    then show ?thesis by (intro exI [of _ False]) (simp add: setLight_kelvin [OF assms])
  qed
qed

lemma activateControl_returns:
  assumes "pending_in_range m"
  shows "\<exists>m' tr'. activateControl e ks m tr = (Ret (m', NoCmd), tr') \<and>
           brightnessValue m' = brightnessValue m \<and>
           temperatureValue m' = temperatureValue m"
proof (cases "focusedControl m")
  case focusToggle
  from toggle_each_returns obtain r tr1 where
    "toggle_each e (getSelectedLightIPs m ks) 0 0 tr = (Ret r, tr1)"
    by blast
  with focusToggle show ?thesis
    by (cases r) (simp add: activateControl_def toggleLights_def)
next
  case focusTurnOff
  from power_each_returns obtain tr1 where
    "power_each e 0 (getSelectedLightIPs m ks) tr = (Ret (), tr1)"
    by blast
  with focusTurnOff show ?thesis by (simp add: activateControl_def)
next
  case focusTurnOn
  from power_each_returns obtain tr1 where
    "power_each e 1 (getSelectedLightIPs m ks) tr = (Ret (), tr1)"
    by blast
  with focusTurnOn show ?thesis by (simp add: activateControl_def)
next
  case focusBrightness
  from brightness_each_returns obtain ok tr1 where
    "brightness_each e (brightnessValue m) (getSelectedLightIPs m ks) tr = (Ret ok, tr1)"
    by blast
  with focusBrightness show ?thesis
    by (simp add: activateControl_def Let_def)
next
  case focusTemperature
  have "2900 \<le> temperatureValue m" "temperatureValue m \<le> 7000"
    using assms by (simp_all add: pending_in_range_def)
  from temperature_each_returns [OF this] obtain ok tr1 where
    "temperature_each e (temperatureValue m) (getSelectedLightIPs m ks) tr = (Ret ok, tr1)"
    by blast
  with focusTemperature show ?thesis
    by (simp add: activateControl_def Let_def)
qed

lemma Update_keeps_range:
  assumes "pending_in_range m"
  shows "\<exists>m' c tr'. Update e ks ms m tr = (Ret (m', c), tr') \<and> pending_in_range m'"
proof (cases ms)
  case OtherMsg
  with assms show ?thesis by (simp add: Update_def)
next
  case (KeyMsg key)
  show ?thesis
  proof (cases "key \<in> {''enter'', '' ''}")
    case True
    from activateControl_returns [OF assms, of e ks tr] obtain m' tr' where
      act: "activateControl e ks m tr = (Ret (m', NoCmd), tr')"
        "brightnessValue m' = brightnessValue m" "temperatureValue m' = temperatureValue m"
      by blast
    then have "pending_in_range m'"
      using assms by (simp add: pending_in_range_def)
    moreover have "Update e ks ms m tr = activateControl e ks m tr"
      using True KeyMsg by (elim insertE emptyE; simp add: Update_def)
    ultimately show ?thesis using act by simp
  next
    case False
    have w: "wrap64 (brightnessValue m - 5) = brightnessValue m - 5"
      "wrap64 (brightnessValue m + 5) = brightnessValue m + 5"
      "wrap64 (temperatureValue m - 200) = temperatureValue m - 200"
      "wrap64 (temperatureValue m + 200) = temperatureValue m + 200"
      using assms by (simp_all add: pending_in_range_def wrap64_id)
    from False assms KeyMsg show ?thesis
      by (simp add: Update_def pending_in_range_def w)
  qed
qed

lemma cliBrightness_plus:
  assumes "reports_in_range e" and "3 \<le> length args" and "args ! 2 = ''+''"
  shows "\<exists>tr'. cliBrightness e cfg args ks1 ks2 tr = (Ret cfg, tr') \<and>
           puts tr' = puts tr @
             step_writes e (\<lambda>s. brightness_patch (clamp_to 3 100 (Brightness s + 5)))
               (length tr) (range_entries (Lights cfg) ks1)"
  using bright_plus_each_writes [OF assms(1), of "range_entries (Lights cfg) ks1" tr] assms(2,3)
  by (auto simp add: cliBrightness_def)

lemma cliBrightness_minus:
  assumes "reports_in_range e" and "3 \<le> length args" and "args ! 2 = ''-''"
  shows "\<exists>tr'. cliBrightness e cfg args ks1 ks2 tr = (Ret cfg, tr') \<and>
           puts tr' = puts tr @
             step_writes e (\<lambda>s. brightness_patch (clamp_to 3 100 (Brightness s - 5)))
               (length tr) (range_entries (Lights cfg) ks1)"
  using bright_minus_each_writes [OF assms(1), of "range_entries (Lights cfg) ks1" tr] assms(2,3)
  by (auto simp add: cliBrightness_def)

lemma cliTemperature_plus:
  assumes "reports_in_range e" and "3 \<le> length args" and "args ! 2 = ''+''"
  shows "\<exists>tr'. cliTemperature e cfg args ks1 ks2 tr = (Ret cfg, tr') \<and>
           puts tr' = puts tr @
             step_writes e
               (\<lambda>s. temperature_patch (1000000 div clamp_to 2900 7000 (kelvin_read s + 200)))
               (length tr) (range_entries (Lights cfg) ks1)"
  using temp_plus_each_writes [OF assms(1), of "range_entries (Lights cfg) ks1" tr] assms(2,3)
  by (auto simp add: cliTemperature_def)

lemma cliTemperature_minus:
  assumes "reports_in_range e" and "3 \<le> length args" and "args ! 2 = ''-''"
  shows "\<exists>tr'. cliTemperature e cfg args ks1 ks2 tr = (Ret cfg, tr') \<and>
           puts tr' = puts tr @
             step_writes e
               (\<lambda>s. temperature_patch (1000000 div clamp_to 2900 7000 (kelvin_read s - 200)))
               (length tr) (range_entries (Lights cfg) ks1)"
  using temp_minus_each_writes [OF assms(1), of "range_entries (Lights cfg) ks1" tr] assms(2,3)
  by (auto simp add: cliTemperature_def)

lemma single_bright_steps:
  assumes "reports_in_range e"
      and "find_target e cfg lightIdentifier ks = (targetIP, targetName)"
      and "targetIP \<noteq> ''''" and "4 \<le> length args"
      and "decode_reply (http_get e (length tr) targetIP) = Inr s"
      and "args ! 2 = ''bright''"
  shows "args ! 3 = ''+'' \<Longrightarrow>
           puts (snd (cliSpecificLight e cfg lightIdentifier args ks tr))
             = puts tr @ [(targetIP, brightness_patch (clamp_to 3 100 (Brightness s + 5)))]"
    and "args ! 3 = ''-'' \<Longrightarrow>
           puts (snd (cliSpecificLight e cfg lightIdentifier args ks tr))
             = puts tr @ [(targetIP, brightness_patch (clamp_to 3 100 (Brightness s - 5)))]"
proof -
  have len: "3 \<le> length args" using assms(4) by simp
  have rng: "3 \<le> Brightness s" "Brightness s \<le> 100"
    using assms(1,5) by (auto simp add: reports_in_range_def)
  note eq = cliSpecificLight_bright [OF assms(2,3) len assms(6)]
  show "args ! 3 = ''+'' \<Longrightarrow>
           puts (snd (cliSpecificLight e cfg lightIdentifier args ks tr))
             = puts tr @ [(targetIP, brightness_patch (clamp_to 3 100 (Brightness s + 5)))]"
    unfolding eq by (rule specific_bright_steps(1) [OF assms(5) rng assms(4)])
  show "args ! 3 = ''-'' \<Longrightarrow>
           puts (snd (cliSpecificLight e cfg lightIdentifier args ks tr))
             = puts tr @ [(targetIP, brightness_patch (clamp_to 3 100 (Brightness s - 5)))]"
    unfolding eq by (rule specific_bright_steps(2) [OF assms(5) rng assms(4)])
qed

lemma single_temp_steps:
  assumes "reports_in_range e"
      and "find_target e cfg lightIdentifier ks = (targetIP, targetName)"
      and "targetIP \<noteq> ''''" and "4 \<le> length args"
      and "decode_reply (http_get e (length tr) targetIP) = Inr s"
      and "args ! 2 = ''temp''"
  shows "args ! 3 = ''+'' \<Longrightarrow>
           puts (snd (cliSpecificLight e cfg lightIdentifier args ks tr))
             = puts tr @ [(targetIP,
                 temperature_patch (1000000 div clamp_to 2900 7000 (kelvin_read s + 200)))]"
    and "args ! 3 = ''-'' \<Longrightarrow>
           puts (snd (cliSpecificLight e cfg lightIdentifier args ks tr))
             = puts tr @ [(targetIP,
                 temperature_patch (1000000 div clamp_to 2900 7000 (kelvin_read s - 200)))]"
proof -
  have len: "3 \<le> length args" using assms(4) by simp
  have rng: "143 \<le> Temperature s" "Temperature s \<le> 344"
    using assms(1,5) by (auto simp add: reports_in_range_def)
  note eq = cliSpecificLight_temp [OF assms(2,3) len assms(6)]
  show "args ! 3 = ''+'' \<Longrightarrow>
           puts (snd (cliSpecificLight e cfg lightIdentifier args ks tr))
             = puts tr @ [(targetIP,
                 temperature_patch (1000000 div clamp_to 2900 7000 (kelvin_read s + 200)))]"
    unfolding eq by (rule specific_temp_steps(1) [OF assms(5) rng assms(4)])
  show "args ! 3 = ''-'' \<Longrightarrow>
           puts (snd (cliSpecificLight e cfg lightIdentifier args ks tr))
             = puts tr @ [(targetIP,
                 temperature_patch (1000000 div clamp_to 2900 7000 (kelvin_read s - 200)))]"
    unfolding eq by (rule specific_temp_steps(2) [OF assms(5) rng assms(4)])
qed

text \<open>
  C4 fails as stated: the relative steps clamp only at the bound they move towards and
  equalize does not clamp. With two lights that report a brightness of 200 and the wire
  temperature 100 (10000 K), \<open>bright -\<close> sends 195 and \<open>bright =\<close> sends 200 to both,
  where 100 is the value clamped to the range, and \<open>temp -\<close> sets both to 9800 K (the
  wire value 102), where 7000 K is.
\<close>

theorem out_of_range_start_is_not_clamped:
  "range_order (Lights two_lights) [''Left'', ''Right''] \<and>
   puts (snd (cliBrightness overdriven_env two_lights [''keylight'', ''bright'', ''-'']
                [''Left'', ''Right''] [''Left'', ''Right''] []))
     = [(''10.0.0.1'', brightness_patch 195), (''10.0.0.2'', brightness_patch 195)] \<and>
   clamp_to 3 100 (200 - 5) = 100 \<and>
   puts (snd (cliBrightness overdriven_env two_lights [''keylight'', ''bright'', ''='']
                [''Left'', ''Right''] [''Left'', ''Right''] []))
     = [(''10.0.0.1'', brightness_patch 200), (''10.0.0.2'', brightness_patch 200)] \<and>
   clamp_to 3 100 200 = 100 \<and>
   cliTemperature overdriven_env two_lights [''keylight'', ''temp'', ''-'']
       [''Left'', ''Right''] [''Left'', ''Right''] []
     = (Ret two_lights,
        [HttpGet ''10.0.0.1'', HttpPut ''10.0.0.1'' (temperature_patch 102),
         Print (TemperatureIs ''Left'' 9800),
         HttpGet ''10.0.0.2'', HttpPut ''10.0.0.2'' (temperature_patch 102),
         Print (TemperatureIs ''Right'' 9800)]) \<and>
   clamp_to 2900 7000 (10000 - 200) = 7000"
  by (auto simp add: range_order_def cliBrightness_def cliTemperature_def range_entries_def
        two_lights_def overdriven_env_def getLightState_def setLight_def go_div_def wrap64_def
        brightness_patch_def temperature_patch_def clamp_to_def ok_response_def puts_def
        Let_def)

text \<open>
  C4, as amended: an adjustment produces the value it starts from, less or plus the
  step, clamped to the range, provided the start value is in range; out of range it is
  not brought back.

  In the session, pending values in range ([3,100] and [2900,7000]) stay in range under
  every input, and \<open>left\<close> and \<open>right\<close> on the Brightness and Temperature rows replace
  the pending value by the value less or plus the step (5 and 200) clamped to the range.

  In the one-shot commands, provided every state that can be read from a light has a
  brightness in [3,100] and a wire temperature in [143,344]: \<open>bright +\<close> and \<open>bright -\<close>
  return and send to every light that can be read its brightness plus or less 5 clamped
  to [3,100]; \<open>temp +\<close> and \<open>temp -\<close> send the wire value \<open>1000000 div k\<close> of its Kelvin
  value \<open>int(1000000 / wire)\<close> plus or less 200 clamped to [2900,7000]; and the same
  holds of the four steps on a single light that was found and can be read. With at
  least one and fewer than \<open>2 ^ 63 / 7000\<close> lights read, \<open>bright =\<close> sends to every
  registered light the truncated mean of the brightness values read, which lies in
  [3,100], and \<open>temp =\<close> the wire value of the truncated mean of the Kelvin values
  read, which lies in [2900,7000]. A value clamped to a range lies in that range.
\<close>

theorem adjusted_values_stay_in_range:
  "(pending_in_range m \<longrightarrow>
      (\<exists>m' c tr'. Update e ks0 ms m tr = (Ret (m', c), tr') \<and> pending_in_range m') \<and>
      (focusedControl m = focusBrightness \<and> key \<in> {''left'', ''h''} \<longrightarrow>
         Update e ks0 (KeyMsg key) m tr
           = (Ret (m\<lparr>brightnessValue := clamp_to 3 100 (brightnessValue m - 5)\<rparr>, NoCmd),
              tr)) \<and>
      (focusedControl m = focusBrightness \<and> key \<in> {''right'', ''l''} \<longrightarrow>
         Update e ks0 (KeyMsg key) m tr
           = (Ret (m\<lparr>brightnessValue := clamp_to 3 100 (brightnessValue m + 5)\<rparr>, NoCmd),
              tr)) \<and>
      (focusedControl m = focusTemperature \<and> key \<in> {''left'', ''h''} \<longrightarrow>
         Update e ks0 (KeyMsg key) m tr
           = (Ret (m\<lparr>temperatureValue := clamp_to 2900 7000 (temperatureValue m - 200)\<rparr>,
                   NoCmd), tr)) \<and>
      (focusedControl m = focusTemperature \<and> key \<in> {''right'', ''l''} \<longrightarrow>
         Update e ks0 (KeyMsg key) m tr
           = (Ret (m\<lparr>temperatureValue := clamp_to 2900 7000 (temperatureValue m + 200)\<rparr>,
                   NoCmd), tr))) \<and>
   (reports_in_range e \<and> 3 \<le> length args \<longrightarrow>
      (args ! 2 = ''+'' \<longrightarrow>
         (\<exists>tr'. cliBrightness e cfg args ks1 ks2 tr = (Ret cfg, tr') \<and>
            puts tr' = puts tr @
              step_writes e (\<lambda>s. brightness_patch (clamp_to 3 100 (Brightness s + 5)))
                (length tr) (range_entries (Lights cfg) ks1)) \<and>
         (\<exists>tr'. cliTemperature e cfg args ks1 ks2 tr = (Ret cfg, tr') \<and>
            puts tr' = puts tr @
              step_writes e
                (\<lambda>s. temperature_patch
                       (1000000 div clamp_to 2900 7000 (kelvin_read s + 200)))
                (length tr) (range_entries (Lights cfg) ks1))) \<and>
      (args ! 2 = ''-'' \<longrightarrow>
         (\<exists>tr'. cliBrightness e cfg args ks1 ks2 tr = (Ret cfg, tr') \<and>
            puts tr' = puts tr @
              step_writes e (\<lambda>s. brightness_patch (clamp_to 3 100 (Brightness s - 5)))
                (length tr) (range_entries (Lights cfg) ks1)) \<and>
         (\<exists>tr'. cliTemperature e cfg args ks1 ks2 tr = (Ret cfg, tr') \<and>
            puts tr' = puts tr @
              step_writes e
                (\<lambda>s. temperature_patch
                       (1000000 div clamp_to 2900 7000 (kelvin_read s - 200)))
                (length tr) (range_entries (Lights cfg) ks1))) \<and>
      (args ! 2 = ''='' \<and> range_order (Lights cfg) ks2 \<and>
       ss = readable (readings e (length tr) (range_entries (Lights cfg) ks1)) \<and>
       ss \<noteq> [] \<and> 7000 * int (length ss) < 2 ^ 63 \<longrightarrow>
         (\<exists>avg tr'. cliBrightness e cfg args ks1 ks2 tr = (Ret cfg, tr') \<and>
            avg = toward_zero (mean (map Brightness ss)) \<and> 3 \<le> avg \<and> avg \<le> 100 \<and>
            puts tr' = puts tr @
              map (\<lambda>name. (map_index (Lights cfg) name, brightness_patch avg)) ks2) \<and>
         (\<exists>avg tr'. cliTemperature e cfg args ks1 ks2 tr = (Ret cfg, tr') \<and>
            avg = toward_zero (mean (map kelvin_read ss)) \<and> 2900 \<le> avg \<and> avg \<le> 7000 \<and>
            puts tr' = puts tr @
              map (\<lambda>name. (map_index (Lights cfg) name,
                            temperature_patch (1000000 div avg))) ks2))) \<and>
   (reports_in_range e \<and> find_target e cfg lightIdentifier ks = (targetIP, targetName) \<and>
    targetIP \<noteq> '''' \<and> 4 \<le> length args \<and>
    decode_reply (http_get e (length tr) targetIP) = Inr s \<longrightarrow>
      (args ! 2 = ''bright'' \<and> args ! 3 = ''+'' \<longrightarrow>
         puts (snd (cliSpecificLight e cfg lightIdentifier args ks tr))
           = puts tr @ [(targetIP, brightness_patch (clamp_to 3 100 (Brightness s + 5)))]) \<and>
      (args ! 2 = ''bright'' \<and> args ! 3 = ''-'' \<longrightarrow>
         puts (snd (cliSpecificLight e cfg lightIdentifier args ks tr))
           = puts tr @ [(targetIP, brightness_patch (clamp_to 3 100 (Brightness s - 5)))]) \<and>
      (args ! 2 = ''temp'' \<and> args ! 3 = ''+'' \<longrightarrow>
         puts (snd (cliSpecificLight e cfg lightIdentifier args ks tr))
           = puts tr @ [(targetIP,
               temperature_patch (1000000 div clamp_to 2900 7000 (kelvin_read s + 200)))]) \<and>
      (args ! 2 = ''temp'' \<and> args ! 3 = ''-'' \<longrightarrow>
         puts (snd (cliSpecificLight e cfg lightIdentifier args ks tr))
           = puts tr @ [(targetIP,
               temperature_patch (1000000 div clamp_to 2900 7000 (kelvin_read s - 200)))])) \<and>
   3 \<le> clamp_to 3 100 x \<and> clamp_to 3 100 x \<le> 100 \<and>
   2900 \<le> clamp_to 2900 7000 y \<and> clamp_to 2900 7000 y \<le> 7000"
  apply (intro conjI impI; (elim conjE)?)
  subgoal by (rule Update_keeps_range)
  subgoal by (simp add: Update_left_brightness pending_in_range_def)
  subgoal by (simp add: Update_right_brightness pending_in_range_def)
  subgoal by (simp add: Update_left_temperature pending_in_range_def)
  subgoal by (simp add: Update_right_temperature pending_in_range_def)
  subgoal by (rule cliBrightness_plus)
  subgoal by (rule cliTemperature_plus)
  subgoal by (rule cliBrightness_minus)
  subgoal by (rule cliTemperature_minus)
  subgoal by (rule equalize_brightness_in_range)
  subgoal by (rule equalize_temperature_in_range)
  subgoal by (rule single_bright_steps(1))
  subgoal by (rule single_bright_steps(2))
  subgoal by (rule single_temp_steps(1))
  subgoal by (rule single_temp_steps(2))
  subgoal by (simp add: clamp_to_def)
  subgoal by (simp add: clamp_to_def)
  subgoal by (simp add: clamp_to_def)
  subgoal by (simp add: clamp_to_def)
  done

theorem adjusted_values_stay_in_range_witness:
  "pending_in_range (one_light\<lparr>focusedControl := focusBrightness, brightnessValue := 98\<rparr>) \<and>
   Update healthy_env [''Key Light''] (KeyMsg ''right'')
       (one_light\<lparr>focusedControl := focusBrightness, brightnessValue := 98\<rparr>) []
     = (Ret (one_light\<lparr>focusedControl := focusBrightness, brightnessValue := 100\<rparr>, NoCmd),
        []) \<and>
   reports_in_range healthy_env \<and>
   range_order (Lights two_lights) [''Left'', ''Right''] \<and>
   puts (snd (cliBrightness healthy_env two_lights [''keylight'', ''bright'', ''+'']
                [''Left'', ''Right''] [''Left'', ''Right''] []))
     = [(''10.0.0.1'', brightness_patch 45), (''10.0.0.2'', brightness_patch 45)] \<and>
   puts (snd (cliTemperature healthy_env two_lights [''keylight'', ''temp'', ''-'']
                [''Left'', ''Right''] [''Left'', ''Right''] []))
     = [(''10.0.0.1'', temperature_patch 208), (''10.0.0.2'', temperature_patch 208)] \<and>
   readable (readings healthy_env 0 (range_entries (Lights two_lights) [''Left'', ''Right'']))
     = [lit_40, lit_40] \<and>
   7000 * int (length (readable (readings healthy_env 0
       (range_entries (Lights two_lights) [''Left'', ''Right''])))) < 2 ^ 63 \<and>
   puts (snd (cliBrightness healthy_env two_lights [''keylight'', ''bright'', ''='']
                [''Left'', ''Right''] [''Left'', ''Right''] []))
     = [(''10.0.0.1'', brightness_patch 40), (''10.0.0.2'', brightness_patch 40)] \<and>
   puts (snd (cliTemperature healthy_env two_lights [''keylight'', ''temp'', ''='']
                [''Left'', ''Right''] [''Left'', ''Right''] []))
     = [(''10.0.0.1'', temperature_patch 200), (''10.0.0.2'', temperature_patch 200)] \<and>
   find_target healthy_env two_lights ''1'' [''Left'', ''Right''] = (''10.0.0.1'', ''Left'') \<and>
   decode_reply (http_get healthy_env 0 ''10.0.0.1'') = Inr lit_40 \<and>
   puts (snd (cliSpecificLight healthy_env two_lights ''1''
                [''keylight'', ''1'', ''bright'', ''+''] [''Left'', ''Right''] []))
     = [(''10.0.0.1'', brightness_patch 45)] \<and>
   puts (snd (cliSpecificLight healthy_env two_lights ''1''
                [''keylight'', ''1'', ''temp'', ''-''] [''Left'', ''Right''] []))
     = [(''10.0.0.1'', temperature_patch 208)]"
proof -
  let ?W = "one_light\<lparr>focusedControl := focusBrightness, brightnessValue := 98\<rparr>"
  let ?LR = "[''Left'', ''Right'']"
  note inst = adjusted_values_stay_in_range [where e = healthy_env and cfg = two_lights
      and tr = "[]" and ?ks1.0 = ?LR and ?ks2.0 = ?LR and ks = ?LR and ?ks0.0 = "[''Key Light'']"
      and m = ?W and key = "''right''" and lightIdentifier = "''1''"
      and targetIP = "''10.0.0.1''" and targetName = "''Left''" and s = lit_40
      and ss = "[lit_40, lit_40]" and x = 0 and y = 0]
  have p: "pending_in_range ?W"
    by (simp add: pending_in_range_def one_light_def)
  have f: "focusedControl ?W = focusBrightness" "brightnessValue ?W = 98" by simp_all
  have r: "reports_in_range healthy_env"
    by (auto simp add: reports_in_range_def healthy_env_def decode_reply_def lit_40_def)
  have ro: "range_order (Lights two_lights) ?LR"
    by (auto simp add: range_order_def two_lights_def)
  have ents: "range_entries (Lights two_lights) ?LR
                = [(''Left'', ''10.0.0.1''), (''Right'', ''10.0.0.2'')]"
    by (simp add: range_entries_def two_lights_def)
  have dec: "decode_reply (http_get healthy_env n ip) = Inr lit_40" for n ip
    by (simp add: healthy_env_def decode_reply_def)
  have rd: "readable (readings healthy_env 0 (range_entries (Lights two_lights) ?LR))
              = [lit_40, lit_40]"
    by (simp add: ents dec readable_simps)
  have kr: "kelvin_read lit_40 = 5000" and br: "Brightness lit_40 = 40"
    by (simp_all add: kelvin_read_def go_div_def lit_40_def)
  have mn: "toward_zero (mean [40, 40]) = 40" "toward_zero (mean [5000, 5000]) = 5000"
    by (simp_all add: toward_zero_def mean_def)
  have mi: "map_index (Lights two_lights) ''Left'' = ''10.0.0.1''"
    "map_index (Lights two_lights) ''Right'' = ''10.0.0.2''"
    by (simp_all add: map_index_def two_lights_def)
  have ft: "find_target healthy_env two_lights ''1'' ?LR = (''10.0.0.1'', ''Left'')"
    by (simp add: find_target_def healthy_env_def cli_scan_def ents)
  have u: "Update healthy_env [''Key Light''] (KeyMsg ''right'') ?W []
             = (Ret (one_light\<lparr>focusedControl := focusBrightness, brightnessValue := 100\<rparr>,
                     NoCmd), [])"
    using inst [where ms = "KeyMsg ''right''" and args = "[]"] p f(1)
    by (simp add: clamp_to_def)
  have a: "puts (snd (cliBrightness healthy_env two_lights [''keylight'', ''bright'', ''+'']
                ?LR ?LR []))
     = [(''10.0.0.1'', brightness_patch 45), (''10.0.0.2'', brightness_patch 45)]"
    using inst [where ms = "KeyMsg ''right''" and args = "[''keylight'', ''bright'', ''+'']"] r
    by (auto simp add: ents dec br clamp_to_def puts_simps)
  have b: "puts (snd (cliTemperature healthy_env two_lights [''keylight'', ''temp'', ''-'']
                ?LR ?LR []))
     = [(''10.0.0.1'', temperature_patch 208), (''10.0.0.2'', temperature_patch 208)]"
    using inst [where ms = "KeyMsg ''right''" and args = "[''keylight'', ''temp'', ''-'']"] r
    by (auto simp add: ents dec kr clamp_to_def puts_simps)
  have c: "puts (snd (cliBrightness healthy_env two_lights [''keylight'', ''bright'', ''='']
                ?LR ?LR []))
     = [(''10.0.0.1'', brightness_patch 40), (''10.0.0.2'', brightness_patch 40)]"
    using inst [where ms = "KeyMsg ''right''" and args = "[''keylight'', ''bright'', ''='']"]
      r ro rd
    by (auto simp add: br mn mi puts_simps)
  have d: "puts (snd (cliTemperature healthy_env two_lights [''keylight'', ''temp'', ''='']
                ?LR ?LR []))
     = [(''10.0.0.1'', temperature_patch 200), (''10.0.0.2'', temperature_patch 200)]"
    using inst [where ms = "KeyMsg ''right''" and args = "[''keylight'', ''temp'', ''='']"]
      r ro rd
    by (auto simp add: kr mn mi puts_simps)
  have s1: "puts (snd (cliSpecificLight healthy_env two_lights ''1''
                [''keylight'', ''1'', ''bright'', ''+''] ?LR []))
     = [(''10.0.0.1'', brightness_patch 45)]"
    using inst [where ms = "KeyMsg ''right''"
        and args = "[''keylight'', ''1'', ''bright'', ''+'']"] r ft
    by (simp add: dec br clamp_to_def puts_simps)
  have s2: "puts (snd (cliSpecificLight healthy_env two_lights ''1''
                [''keylight'', ''1'', ''temp'', ''-''] ?LR []))
     = [(''10.0.0.1'', temperature_patch 208)]"
    using inst [where ms = "KeyMsg ''right''"
        and args = "[''keylight'', ''1'', ''temp'', ''-'']"] r ft
    by (simp add: dec kr clamp_to_def puts_simps)
  have n: "7000 * int (length (readable (readings healthy_env 0
       (range_entries (Lights two_lights) ?LR)))) < 2 ^ 63"
    by (simp add: rd)
  from p u r ro a b rd n c d ft dec [of 0 "''10.0.0.1''"] s1 s2 show ?thesis by simp
qed

end
